theory Spec2Isabelle
  imports Main "HOL-Library.Sublist" "HOL-Library.AList"
begin

section \<open>JavaScript values and strings\<close>

text \<open>
  Strings are byte strings (the UTF-8 encoding of the JavaScript string), so that the
  percent-encoders below work byte by byte as the platform functions do. Numbers are
  integers: the query options \<open>top\<close> and \<open>skip\<close> and HTTP status codes are the only
  numbers the client computes with; fractional numbers and NaN are outside the model.
\<close>

datatype jsval =
    JUndefined
  | JNull
  | JBool bool
  | JNum int
  | JStr string
  | JArr "jsval list"
  | JObj "(string \<times> jsval) list"

text \<open>Truthiness, as tested by \<open>if (v)\<close>, \<open>a && b\<close> and \<open>a || b\<close>.\<close>

fun truthy :: "jsval \<Rightarrow> bool" where
  "truthy JUndefined = False"
| "truthy JNull = False"
| "truthy (JBool b) = b"
| "truthy (JNum n) = (n \<noteq> 0)"
| "truthy (JStr s) = (s \<noteq> [])"
| "truthy (JArr xs) = True"
| "truthy (JObj kvs) = True"

definition orElse :: "jsval \<Rightarrow> jsval \<Rightarrow> jsval" where
  "orElse a b = (if truthy a then a else b)"

fun nullish :: "jsval \<Rightarrow> bool" where
  "nullish JUndefined = True"
| "nullish JNull = True"
| "nullish v = False"

text \<open>\<open>Array.prototype.join\<close> on an array of strings.\<close>

fun joinWith :: "string \<Rightarrow> string list \<Rightarrow> string" where
  "joinWith sep [] = []"
| "joinWith sep [x] = x"
| "joinWith sep (x # y # ys) = x @ sep @ joinWith sep (y # ys)"

text \<open>
  \<open>Number.prototype.toString\<close> on integers: decimal digits, a minus sign first. This
  is what JavaScript prints for the safe integers (magnitude at most \<open>2^53 - 1\<close>).
  Beyond them not every integer is a JavaScript number, and from \<open>10^21\<close> on
  JavaScript prints an exponent; the statements below that print an arbitrary number
  assume it safe.
\<close>

fun string_of_nat :: "nat \<Rightarrow> string" where
  "string_of_nat n =
     (if n < 10 then [''0123456789'' ! n]
      else string_of_nat (n div 10) @ [''0123456789'' ! (n mod 10)])"

declare string_of_nat.simps [simp del]

definition string_of_int :: "int \<Rightarrow> string" where
  "string_of_int i = (if i < 0 then CHR ''-'' # string_of_nat (nat (- i)) else string_of_nat (nat i))"

definition safeInteger :: "int \<Rightarrow> bool" where
  "safeInteger n = (- 9007199254740991 \<le> n \<and> n \<le> 9007199254740991)"

text \<open>
  \<open>String(v)\<close>, which template literals and \<open>encodeURIComponent\<close> apply to their
  argument; \<open>None\<close> when it throws the \<open>TypeError\<close> "Cannot convert object to
  primitive value". An array joins its elements with commas, null and undefined
  elements as the empty string, converting the elements in order. An object gives
  \<open>[object Object]\<close> by the inherited \<open>toString\<close>; an object with an own property
  \<open>toString\<close> (which in data is never a function) has no conversion and throws.
\<close>

fun toStr :: "jsval \<Rightarrow> string option"
  and toStrs :: "jsval list \<Rightarrow> string list option" where
  "toStr JUndefined = Some ''undefined''"
| "toStr JNull = Some ''null''"
| "toStr (JBool b) = Some (if b then ''true'' else ''false'')"
| "toStr (JNum n) = Some (string_of_int n)"
| "toStr (JStr s) = Some s"
| "toStr (JArr xs) = map_option (joinWith '','') (toStrs xs)"
| "toStr (JObj kvs) =
     (if ''toString'' \<in> fst ` set kvs then None else Some ''[object Object]'')"
| "toStrs [] = Some []"
| "toStrs (x # xs) =
     (case (if nullish x then Some [] else toStr x) of
        None \<Rightarrow> None
      | Some s \<Rightarrow> map_option ((#) s) (toStrs xs))"

text \<open>Every number that \<open>String(v)\<close> prints is a safe integer.\<close>

fun safeNumbers :: "jsval \<Rightarrow> bool" where
  "safeNumbers (JNum n) = safeInteger n"
| "safeNumbers (JArr xs) = list_all safeNumbers xs"
| "safeNumbers v = True"

subsection \<open>Percent-encoding\<close>

definition hexDigit :: "nat \<Rightarrow> char" where
  "hexDigit n = ''0123456789ABCDEF'' ! n"

definition percentByte :: "char \<Rightarrow> string" where
  "percentByte c = [CHR ''%'', hexDigit (of_char c div 16), hexDigit (of_char c mod 16)]"

definition isAlnum :: "char \<Rightarrow> bool" where
  "isAlnum c = (let n = (of_char c :: nat) in
     (48 \<le> n \<and> n \<le> 57) \<or> (65 \<le> n \<and> n \<le> 90) \<or> (97 \<le> n \<and> n \<le> 122))"

text \<open>
  \<open>encodeURIComponent\<close>: every byte is escaped but the letters, the digits and
  \<open>- _ . ! ~ * ' ( )\<close>. (The function throws on a string with a lone surrogate; such
  a string has no UTF-8 encoding and is outside the model.)
\<close>

definition uriComponentByte :: "char \<Rightarrow> string" where
  "uriComponentByte c =
     (if isAlnum c \<or> c \<in> set ''-_.!~*'' \<or> c = CHR 0x27 \<or> c \<in> set ''()'' then [c]
      else percentByte c)"

definition encodeURIComponent :: "jsval \<Rightarrow> string option" where
  "encodeURIComponent v = map_option (\<lambda>s. concat (map uriComponentByte s)) (toStr v)"

text \<open>
  \<open>URLSearchParams.prototype.toString\<close>: the application/x-www-form-urlencoded
  serializer. Names and values keep the letters, the digits and \<open>* - . _\<close>; a space
  becomes \<open>+\<close>; every other byte is escaped. Pairs are written \<open>name=value\<close> and joined
  with \<open>&\<close>.
\<close>

definition formEncodeByte :: "char \<Rightarrow> string" where
  "formEncodeByte c =
     (if isAlnum c \<or> c \<in> set ''*-._'' then [c]
      else if c = CHR '' '' then ''+''
      else percentByte c)"

definition formEncode :: "string \<Rightarrow> string" where
  "formEncode s = concat (map formEncodeByte s)"

definition searchParamsToString :: "(string \<times> string) list \<Rightarrow> string" where
  "searchParamsToString ps =
     joinWith ''&'' (map (\<lambda>(k, v). formEncode k @ ''='' @ formEncode v) ps)"

section \<open>The HTTP boundary\<close>

datatype httpMethod = GET | POST | PUT | DELETE

text \<open>
  A request as one call of the axios instance states it: method, URL relative to the
  base URL, the headers of the call and of the request interceptor, the timeout of the
  call when it sets one, and the body. What the constructor fixes for all requests
  (base URL, credentials, the default headers and timeout) is not repeated here.
\<close>

record request =
  rmethod :: httpMethod
  rurl :: string
  rheaders :: "(string \<times> string) list"
  rtimeout :: "nat option"
  rbody :: "jsval option"

text \<open>
  What the client reads of a response: the status line, the \<open>x-csrf-token\<close> and
  \<open>set-cookie\<close> headers (absent: \<open>None\<close>), and the body.
\<close>

record response =
  status :: nat
  statusText :: string
  hdrCsrfToken :: "string option"
  hdrSetCookie :: "string list option"
  rdata :: jsval

text \<open>
  The remote service is a parameter: a state machine that answers each request with a
  response, with silence (the request was sent and nothing came back: a network error
  or a timeout), or with a failure to send at all.
\<close>

datatype reply = Replied response | NoReply | NotSent string

type_synonym 'w backend = "'w \<Rightarrow> request \<Rightarrow> reply \<times> 'w"

text \<open>
  What a JavaScript \<open>catch\<close> can receive here: the three shapes of an axios error
  (with a response, with a request only, with neither), a plain \<open>Error\<close>, and the
  \<open>TypeError\<close> of a property read on null or undefined or of a call of a non-function.
\<close>

datatype error =
    HttpError response
  | NoResponseError
  | RequestError string
  | Error string
  | TypeError string

definition getErrorMessage :: "error \<Rightarrow> string" where
  "getErrorMessage e =
     (case e of
        HttpError r \<Rightarrow> ''HTTP '' @ string_of_nat (status r) @ '': '' @ statusText r
      | NoResponseError \<Rightarrow> ''No response received from server''
      | RequestError m \<Rightarrow> (if m \<noteq> [] then m else ''Unknown error'')
      | Error m \<Rightarrow> (if m \<noteq> [] then m else ''Unknown error'')
      | TypeError m \<Rightarrow> (if m \<noteq> [] then m else ''Unknown error''))"

text \<open>\<open>error.response?.status === n\<close>\<close>

definition hasStatus :: "error \<Rightarrow> nat \<Rightarrow> bool" where
  "hasStatus e n = (case e of HttpError r \<Rightarrow> status r = n | _ \<Rightarrow> False)"

text \<open>The error of a conversion to a string that throws.\<close>

definition notPrimitive :: error where
  "notPrimitive = TypeError ''Cannot convert object to primitive value''"

section \<open>Configuration and session state\<close>

record SAPODataConfig =
  baseUrl :: string
  username :: string
  password :: string
  client :: "string option"
  timeout :: nat
  validateSSL :: bool
  enableCSRF :: bool

record session =
  connected :: bool
  csrfToken :: "string option"
  cookies :: "string list"

definition newClient :: session where
  "newClient = \<lparr>connected = False, csrfToken = None, cookies = []\<rparr>"

subsection \<open>setupInterceptors\<close>

definition requestInterceptor :: "session \<Rightarrow> request \<Rightarrow> request" where
  "requestInterceptor s r =
     (let r1 = (case csrfToken s of
                  Some t \<Rightarrow>
                    if t \<noteq> [] \<and> rmethod r \<noteq> GET
                    then r\<lparr>rheaders := AList.update ''X-CSRF-Token'' t (rheaders r)\<rparr>
                    else r
                | None \<Rightarrow> r)
      in if length (cookies s) > 0
         then r1\<lparr>rheaders := AList.update ''Cookie'' (joinWith ''; '' (cookies s)) (rheaders r1)\<rparr>
         else r1)"

definition onResponse :: "session \<Rightarrow> response \<Rightarrow> session" where
  "onResponse s resp =
     (let s1 = (case hdrCsrfToken resp of
                  Some t \<Rightarrow> if t \<noteq> [] \<and> t \<noteq> ''Required'' then s\<lparr>csrfToken := Some t\<rparr> else s
                | None \<Rightarrow> s)
      in case hdrSetCookie resp of
           Some cs \<Rightarrow> s1\<lparr>cookies := map (takeWhile (\<lambda>c. c \<noteq> CHR '';'')) cs\<rparr>
         | None \<Rightarrow> s1)"

definition onError :: "session \<Rightarrow> error \<Rightarrow> session" where
  "onError s e =
     (if hasStatus e 401 then s\<lparr>connected := False, csrfToken := None, cookies := []\<rparr> else s)"

text \<open>
  One call of the axios instance: the request interceptor, the exchange with the
  service, axios's own split of the outcome (a status from 200 to 299 resolves, every
  other outcome rejects), and the response interceptor of that side.
\<close>

definition send :: "'w backend \<Rightarrow> 'w \<Rightarrow> session \<Rightarrow> request \<Rightarrow> (error + response) \<times> session \<times> 'w" where
  "send be w s r =
     (case be w (requestInterceptor s r) of
        (Replied resp, w') \<Rightarrow>
          if 200 \<le> status resp \<and> status resp < 300
          then (Inr resp, onResponse s resp, w')
          else (Inl (HttpError resp), onError s (HttpError resp), w')
      | (NoReply, w') \<Rightarrow> (Inl NoResponseError, onError s NoResponseError, w')
      | (NotSent m, w') \<Rightarrow> (Inl (RequestError m), onError s (RequestError m), w'))"

definition httpGet :: "string \<Rightarrow> (string \<times> string) list \<Rightarrow> nat option \<Rightarrow> request" where
  "httpGet url hs t = \<lparr>rmethod = GET, rurl = url, rheaders = hs, rtimeout = t, rbody = None\<rparr>"

definition ensureConnected :: "session \<Rightarrow> error + unit" where
  "ensureConnected s =
     (if \<not> connected s
      then Inl (Error ''Not connected to SAP OData service. Use sap_connect first.'')
      else Inr ())"

section \<open>Connection lifecycle\<close>

definition fetchCSRFToken :: "'w backend \<Rightarrow> 'w \<Rightarrow> session \<Rightarrow> session \<times> 'w" where
  "fetchCSRFToken be w s =
     (case send be w s
             (httpGet '''' [(''X-CSRF-Token'', ''Fetch''), (''Accept'', ''application/xml'')] None) of
        (res, s', w') \<Rightarrow> (s', w'))"

text \<open>
  The two connectivity tests of \<open>connect\<close>: the value is the flag \<open>connectionTest\<close>, or
  the error thrown to the outer \<open>catch\<close>.
\<close>

definition connectionTest :: "'w backend \<Rightarrow> 'w \<Rightarrow> session \<Rightarrow> (error + bool) \<times> session \<times> 'w" where
  "connectionTest be w s =
     (case send be w s
             (httpGet ''../iwfnd/catalogservice;v=2/ServiceCollection''
                [(''Accept'', ''application/json'')] (Some 10000)) of
        (Inr resp, s1, w1) \<Rightarrow> (Inr True, s1, w1)
      | (Inl catalogError, s1, w1) \<Rightarrow>
          (case send be w1 s1 (httpGet '''' [(''Accept'', ''application/xml'')] (Some 10000)) of
             (Inr resp, s2, w2) \<Rightarrow> (Inr True, s2, w2)
           | (Inl e, s2, w2) \<Rightarrow>
               if hasStatus e 404 then (Inr True, s2, w2)
               else if hasStatus e 401
                 then (Inl (Error ''Authentication failed - check username/password''), s2, w2)
               else if hasStatus e 403
                 then (Inl (Error ''Access forbidden - check user authorizations''), s2, w2)
               else (Inl e, s2, w2)))"

definition connectFailed :: "error \<Rightarrow> session \<Rightarrow> 'w \<Rightarrow> (error + unit) \<times> session \<times> 'w" where
  "connectFailed e s w =
     (Inl (Error (''Failed to connect to SAP OData service: '' @ getErrorMessage e)),
      s\<lparr>connected := False, csrfToken := None, cookies := []\<rparr>, w)"

definition connect :: "SAPODataConfig \<Rightarrow> 'w backend \<Rightarrow> 'w \<Rightarrow> session \<Rightarrow> (error + unit) \<times> session \<times> 'w" where
  "connect cfg be w s =
     (case (if enableCSRF cfg then fetchCSRFToken be w s else (s, w)) of
        (s0, w0) \<Rightarrow>
          (case connectionTest be w0 s0 of
             (Inr ok, s1, w1) \<Rightarrow>
               if ok then (Inr (), s1\<lparr>connected := True\<rparr>, w1)
               else connectFailed (Error ''Could not verify SAP OData connection'') s1 w1
           | (Inl e, s1, w1) \<Rightarrow> connectFailed e s1 w1))"

definition disconnect :: "session \<Rightarrow> session" where
  "disconnect s = s\<lparr>connected := False, csrfToken := None, cookies := []\<rparr>"

definition isConnected :: "'w backend \<Rightarrow> 'w \<Rightarrow> session \<Rightarrow> bool \<times> session \<times> 'w" where
  "isConnected be w s =
     (if \<not> connected s then (False, s, w)
      else case send be w s (httpGet '''' [(''Accept'', ''application/xml'')] (Some 5000)) of
             (Inr resp, s', w') \<Rightarrow> (True, s', w')
           | (Inl e, s', w') \<Rightarrow>
               if hasStatus e 404 then (True, s', w')
               else if hasStatus e 401 \<or> hasStatus e 403 then (False, s'\<lparr>connected := False\<rparr>, w')
               else (False, s'\<lparr>connected := False\<rparr>, w'))"

section \<open>Data operations\<close>

record ODataQueryOptions =
  select :: "string list option"
  filter_opt :: "string option"
  orderby :: "string option"
  top_opt :: "int option"
  skip :: "int option"
  expand :: "string list option"

text \<open>The pairs appended to the \<open>URLSearchParams\<close>, in the order of the appends.\<close>

definition queryParams :: "ODataQueryOptions \<Rightarrow> (string \<times> string) list" where
  "queryParams options =
     (case select options of
        Some xs \<Rightarrow> if length xs > 0 then [(''$select'', joinWith '','' xs)] else []
      | None \<Rightarrow> []) @
     (case filter_opt options of
        Some f \<Rightarrow> if f \<noteq> [] then [(''$filter'', f)] else []
      | None \<Rightarrow> []) @
     (case orderby options of
        Some ob \<Rightarrow> if ob \<noteq> [] then [(''$orderby'', ob)] else []
      | None \<Rightarrow> []) @
     (case top_opt options of
        Some n \<Rightarrow> if n \<noteq> 0 then [(''$top'', string_of_int n)] else []
      | None \<Rightarrow> []) @
     (case skip options of
        Some n \<Rightarrow> if n \<noteq> 0 then [(''$skip'', string_of_int n)] else []
      | None \<Rightarrow> []) @
     (case expand options of
        Some xs \<Rightarrow> if length xs > 0 then [(''$expand'', joinWith '','' xs)] else []
      | None \<Rightarrow> [])"

definition withQuery :: "string \<Rightarrow> (string \<times> string) list \<Rightarrow> string" where
  "withQuery path params =
     path @ (if searchParamsToString params \<noteq> [] then ''?'' @ searchParamsToString params else [])"

definition queryEntitySet ::
  "'w backend \<Rightarrow> 'w \<Rightarrow> session \<Rightarrow> string \<Rightarrow> string \<Rightarrow> ODataQueryOptions \<Rightarrow>
     (error + jsval) \<times> session \<times> 'w" where
  "queryEntitySet be w s serviceName entitySet options =
     (case ensureConnected s of
        Inl e \<Rightarrow> (Inl e, s, w)
      | Inr u \<Rightarrow>
          (case send be w s
                  (httpGet (withQuery (serviceName @ ''/'' @ entitySet) (queryParams options)) [] None) of
             (Inr resp, s', w') \<Rightarrow> (Inr (rdata resp), s', w')
           | (Inl e, s', w') \<Rightarrow>
               (Inl (Error (''Failed to query entity set '' @ entitySet @ '': '' @ getErrorMessage e)),
                s', w')))"

text \<open>
  The key predicate; \<open>None\<close> when the conversion of a value throws. \<open>keyValues\<close> is
  the list \<open>Object.entries\<close> yields, in its order.
\<close>

definition keyString :: "(string \<times> jsval) list \<Rightarrow> string option" where
  "keyString keyValues =
     map_option (joinWith '','')
       (those (map (\<lambda>(key, value).
                      map_option (\<lambda>encoded. key @ ''='' @ [CHR 0x27] @ encoded @ [CHR 0x27])
                        (encodeURIComponent value))
                 keyValues))"

definition getEntity ::
  "'w backend \<Rightarrow> 'w \<Rightarrow> session \<Rightarrow> string \<Rightarrow> string \<Rightarrow> (string \<times> jsval) list \<Rightarrow>
     (error + jsval) \<times> session \<times> 'w" where
  "getEntity be w s serviceName entitySet keyValues =
     (case ensureConnected s of
        Inl e \<Rightarrow> (Inl e, s, w)
      | Inr u \<Rightarrow>
          (case keyString keyValues of
             None \<Rightarrow>
               (Inl (Error (''Failed to get entity: '' @ getErrorMessage notPrimitive)), s, w)
           | Some keys \<Rightarrow>
               (case send be w s
                       (httpGet (serviceName @ ''/'' @ entitySet @ ''('' @ keys @ '')'') [] None) of
                  (Inr resp, s', w') \<Rightarrow> (Inr (rdata resp), s', w')
                | (Inl e, s', w') \<Rightarrow>
                    (Inl (Error (''Failed to get entity: '' @ getErrorMessage e)), s', w'))))"

definition createEntity ::
  "'w backend \<Rightarrow> 'w \<Rightarrow> session \<Rightarrow> string \<Rightarrow> string \<Rightarrow> jsval \<Rightarrow>
     (error + jsval) \<times> session \<times> 'w" where
  "createEntity be w s serviceName entitySet body =
     (case ensureConnected s of
        Inl e \<Rightarrow> (Inl e, s, w)
      | Inr u \<Rightarrow>
          (case send be w s
                  \<lparr>rmethod = POST, rurl = serviceName @ ''/'' @ entitySet, rheaders = [],
                   rtimeout = None, rbody = Some body\<rparr> of
             (Inr resp, s', w') \<Rightarrow> (Inr (rdata resp), s', w')
           | (Inl e, s', w') \<Rightarrow>
               (Inl (Error (''Failed to create entity: '' @ getErrorMessage e)), s', w')))"

definition updateEntity ::
  "'w backend \<Rightarrow> 'w \<Rightarrow> session \<Rightarrow> string \<Rightarrow> string \<Rightarrow> (string \<times> jsval) list \<Rightarrow> jsval \<Rightarrow>
     (error + jsval) \<times> session \<times> 'w" where
  "updateEntity be w s serviceName entitySet keyValues body =
     (case ensureConnected s of
        Inl e \<Rightarrow> (Inl e, s, w)
      | Inr u \<Rightarrow>
          (case keyString keyValues of
             None \<Rightarrow>
               (Inl (Error (''Failed to update entity: '' @ getErrorMessage notPrimitive)), s, w)
           | Some keys \<Rightarrow>
               (case send be w s
                       \<lparr>rmethod = PUT,
                        rurl = serviceName @ ''/'' @ entitySet @ ''('' @ keys @ '')'',
                        rheaders = [], rtimeout = None, rbody = Some body\<rparr> of
                  (Inr resp, s', w') \<Rightarrow> (Inr (rdata resp), s', w')
                | (Inl e, s', w') \<Rightarrow>
                    (Inl (Error (''Failed to update entity: '' @ getErrorMessage e)), s', w'))))"

definition deleteEntity ::
  "'w backend \<Rightarrow> 'w \<Rightarrow> session \<Rightarrow> string \<Rightarrow> string \<Rightarrow> (string \<times> jsval) list \<Rightarrow>
     (error + unit) \<times> session \<times> 'w" where
  "deleteEntity be w s serviceName entitySet keyValues =
     (case ensureConnected s of
        Inl e \<Rightarrow> (Inl e, s, w)
      | Inr u \<Rightarrow>
          (case keyString keyValues of
             None \<Rightarrow>
               (Inl (Error (''Failed to delete entity: '' @ getErrorMessage notPrimitive)), s, w)
           | Some keys \<Rightarrow>
               (case send be w s
                       \<lparr>rmethod = DELETE,
                        rurl = serviceName @ ''/'' @ entitySet @ ''('' @ keys @ '')'',
                        rheaders = [], rtimeout = None, rbody = None\<rparr> of
                  (Inr resp, s', w') \<Rightarrow> (Inr (), s', w')
                | (Inl e, s', w') \<Rightarrow>
                    (Inl (Error (''Failed to delete entity: '' @ getErrorMessage e)), s', w'))))"

definition callFunction ::
  "'w backend \<Rightarrow> 'w \<Rightarrow> session \<Rightarrow> string \<Rightarrow> string \<Rightarrow> (string \<times> jsval) list \<Rightarrow>
     (error + jsval) \<times> session \<times> 'w" where
  "callFunction be w s serviceName functionName parameters =
     (case ensureConnected s of
        Inl e \<Rightarrow> (Inl e, s, w)
      | Inr u \<Rightarrow>
          (case those (map (\<lambda>(key, value). map_option (Pair key) (toStr value)) parameters) of
             None \<Rightarrow>
               (Inl (Error (''Failed to call function '' @ functionName @ '': ''
                            @ getErrorMessage notPrimitive)), s, w)
           | Some params \<Rightarrow>
               (case send be w s
                       (httpGet (withQuery (serviceName @ ''/'' @ functionName) params) [] None) of
                  (Inr resp, s', w') \<Rightarrow> (Inr (rdata resp), s', w')
                | (Inl e, s', w') \<Rightarrow>
                    (Inl (Error (''Failed to call function '' @ functionName @ '': ''
                                 @ getErrorMessage e)), s', w'))))"

section \<open>Reading response bodies and parse trees\<close>

text \<open>
  A property read \<open>v.n\<close> or \<open>v[i]\<close> on a value that is neither null nor undefined.
  An object is the list of its entries (keys distinct). The names the client reads
  (\<open>d\<close>, \<open>results\<close>, \<open>ID\<close>, \<open>Title\<close>, \<open>Version\<close>, \<open>$\<close>, \<open>Name\<close>, \<open>Type\<close>, \<open>Nullable\<close>,
  \<open>ReturnType\<close>, \<open>Schema\<close>, \<open>EntityType\<close>, \<open>Property\<close>, \<open>EntityContainer\<close>,
  \<open>FunctionImport\<close> and the two \<open>edmx:\<close> names) are no members of a string, a number,
  a boolean or an array, where the read gives undefined.
\<close>

fun member :: "jsval \<Rightarrow> string \<Rightarrow> jsval" where
  "member (JObj kvs) n = (case map_of kvs n of Some v \<Rightarrow> v | None \<Rightarrow> JUndefined)"
| "member v n = JUndefined"

fun elementAt :: "jsval \<Rightarrow> nat \<Rightarrow> jsval" where
  "elementAt (JArr xs) i = (if i < length xs then xs ! i else JUndefined)"
| "elementAt (JStr s) i = (if i < length s then JStr [s ! i] else JUndefined)"
| "elementAt (JObj kvs) i = (case map_of kvs (string_of_nat i) of Some v \<Rightarrow> v | None \<Rightarrow> JUndefined)"
| "elementAt v i = JUndefined"

text \<open>The same reads on any value: a \<open>TypeError\<close> on null and undefined.\<close>

definition getMember :: "jsval \<Rightarrow> string \<Rightarrow> error + jsval" where
  "getMember v n =
     (if nullish v then Inl (TypeError ''Cannot read properties of undefined'')
      else Inr (member v n))"

text \<open>Optional chaining \<open>v?.n\<close> and \<open>v?.[i]\<close>.\<close>

definition optMember :: "jsval \<Rightarrow> string \<Rightarrow> jsval" where
  "optMember v n = (if nullish v then JUndefined else member v n)"

definition optElementAt :: "jsval \<Rightarrow> nat \<Rightarrow> jsval" where
  "optElementAt v i = (if nullish v then JUndefined else elementAt v i)"

text \<open>
  \<open>v.map(f)\<close>: an array maps its elements in order, the first exception ending the
  call; on every other value \<open>map\<close> is no function.
\<close>

fun mapE :: "('a \<Rightarrow> error + 'b) \<Rightarrow> 'a list \<Rightarrow> error + 'b list" where
  "mapE f [] = Inr []"
| "mapE f (x # xs) =
     (case f x of
        Inl e \<Rightarrow> Inl e
      | Inr y \<Rightarrow> (case mapE f xs of Inl e \<Rightarrow> Inl e | Inr ys \<Rightarrow> Inr (y # ys)))"

definition jsMap :: "(jsval \<Rightarrow> error + 'b) \<Rightarrow> jsval \<Rightarrow> error + 'b list" where
  "jsMap f v = (case v of JArr xs \<Rightarrow> mapE f xs | _ \<Rightarrow> Inl (TypeError ''map is not a function''))"

section \<open>Service discovery\<close>

text \<open>
  The fields carry what the code puts there: \<open>name\<close>, \<open>title\<close> and \<open>version\<close> of a
  catalog record are whatever the record holds (undefined when it holds nothing).
\<close>

record ODataService =
  name :: jsval
  title :: jsval
  version :: jsval
  url :: "string option"

record ODataServiceList =
  services :: "ODataService list"
  source :: "string option"
  catalogUrl :: "string option"
  message :: "string option"

definition catalogPaths :: "string list" where
  "catalogPaths =
     [''../iwfnd/catalogservice;v=2/ServiceCollection'',
      ''../IWFND/CATALOGSERVICE;v=2/ServiceCollection'',
      ''../iwfnd/catalogservice/ServiceCollection'',
      ''../IWFND/CATALOGSERVICE/ServiceCollection'']"

definition commonServices :: "string list" where
  "commonServices =
     [''GWSAMPLE_BASIC'', ''GWDEMO'', ''RMTSAMPLEFLIGHT'', ''API_MATERIAL_SRV'',
      ''API_BUSINESS_PARTNER'', ''API_SALES_ORDER_SRV'', ''ZMM_MATERIAL_SRV'',
      ''ZSD_SALES_SRV'', ''ZFI_GL_SRV'']"

definition catalogService :: "SAPODataConfig \<Rightarrow> jsval \<Rightarrow> error + ODataService" where
  "catalogService cfg service =
     (case getMember service ''ID'' of
        Inl e \<Rightarrow> Inl e
      | Inr ident \<Rightarrow>
          (case toStr ident of
             None \<Rightarrow> Inl notPrimitive
           | Some text \<Rightarrow>
               Inr \<lparr>name = ident,
                    title = orElse (member service ''Title'') ident,
                    version = member service ''Version'',
                    url = Some (baseUrl cfg @ text @ ''/'')\<rparr>))"

text \<open>\<open>response.data && response.data.d && response.data.d.results\<close>, as a condition.\<close>

definition hasResults :: "jsval \<Rightarrow> bool" where
  "hasResults body =
     (truthy body \<and> truthy (member body ''d'') \<and> truthy (member (member body ''d'') ''results''))"

text \<open>
  The loop over the catalog paths. An iteration ends the loop when the path answers
  with results that map to services; a failed request, a body without results and an
  exception of the mapping all go on to the next path.
\<close>

fun catalogLoop ::
  "SAPODataConfig \<Rightarrow> 'w backend \<Rightarrow> string list \<Rightarrow> 'w \<Rightarrow> session \<Rightarrow>
     ODataServiceList option \<times> session \<times> 'w" where
  "catalogLoop cfg be [] w s = (None, s, w)"
| "catalogLoop cfg be (catalogPath # rest) w s =
     (case send be w s (httpGet catalogPath [(''Accept'', ''application/json'')] None) of
        (Inl e, s', w') \<Rightarrow> catalogLoop cfg be rest w' s'
      | (Inr resp, s', w') \<Rightarrow>
          if hasResults (rdata resp)
          then (case jsMap (catalogService cfg) (member (member (rdata resp) ''d'') ''results'') of
                  Inr found \<Rightarrow>
                    (Some \<lparr>services = found, source = Some ''gateway_catalog'',
                           catalogUrl = Some catalogPath, message = None\<rparr>, s', w')
                | Inl e \<Rightarrow> catalogLoop cfg be rest w' s')
          else catalogLoop cfg be rest w' s')"

definition commonService :: "SAPODataConfig \<Rightarrow> string \<Rightarrow> ODataService" where
  "commonService cfg serviceName =
     \<lparr>name = JStr serviceName, title = JStr serviceName, version = JUndefined,
      url = Some (baseUrl cfg @ serviceName @ ''/'')\<rparr>"

fun probeLoop ::
  "SAPODataConfig \<Rightarrow> 'w backend \<Rightarrow> string list \<Rightarrow> 'w \<Rightarrow> session \<Rightarrow> ODataService list \<Rightarrow>
     ODataService list \<times> session \<times> 'w" where
  "probeLoop cfg be [] w s foundServices = (foundServices, s, w)"
| "probeLoop cfg be (serviceName # rest) w s foundServices =
     (case send be w s
             (httpGet (serviceName @ ''/'') [(''Accept'', ''application/xml'')] (Some 5000)) of
        (Inr resp, s', w') \<Rightarrow>
          probeLoop cfg be rest w' s' (foundServices @ [commonService cfg serviceName])
      | (Inl e, s', w') \<Rightarrow> probeLoop cfg be rest w' s' foundServices)"

definition noneFoundMessage :: string where
  "noneFoundMessage =
     ''No services found. The base URL exists but specific services need to be discovered through SAP GUI or by testing known service names.''"

text \<open>
  Nothing inside the outer \<open>try\<close> of \<open>getServices\<close> throws past the inner handlers, so
  the outer \<open>catch\<close> has no branch here.
\<close>

definition getServices ::
  "SAPODataConfig \<Rightarrow> 'w backend \<Rightarrow> 'w \<Rightarrow> session \<Rightarrow> (error + ODataServiceList) \<times> session \<times> 'w" where
  "getServices cfg be w s =
     (case ensureConnected s of
        Inl e \<Rightarrow> (Inl e, s, w)
      | Inr u \<Rightarrow>
          (case catalogLoop cfg be catalogPaths w s of
             (Some result, s1, w1) \<Rightarrow> (Inr result, s1, w1)
           | (None, s1, w1) \<Rightarrow>
               (case probeLoop cfg be commonServices w1 s1 [] of
                  (foundServices, s2, w2) \<Rightarrow>
                    if length foundServices > 0
                    then (Inr \<lparr>services = foundServices, source = Some ''common_services_test'',
                               catalogUrl = None, message = None\<rparr>, s2, w2)
                    else (Inr \<lparr>services = [], source = Some ''none_found'',
                               catalogUrl = None, message = Some noneFoundMessage\<rparr>, s2, w2))))"

section \<open>Metadata\<close>

record ODataProperty =
  propertyName :: jsval
  propertyType :: jsval
  nullable :: bool

record ODataEntity =
  entityName :: jsval
  properties :: "ODataProperty list"

record ODataFunction =
  functionName :: jsval
  returnType :: jsval

record ODataMetadata =
  entities :: "ODataEntity list"
  functions' :: "ODataFunction list"
  raw :: "jsval option"

text \<open>\<open>node.$.n\<close>: the attribute \<open>n\<close> of a node of the parse tree.\<close>

definition attr :: "jsval \<Rightarrow> string \<Rightarrow> error + jsval" where
  "attr node n = (case getMember node ''$'' of Inl e \<Rightarrow> Inl e | Inr a \<Rightarrow> getMember a n)"

definition extractProperty :: "jsval \<Rightarrow> error + ODataProperty" where
  "extractProperty prop =
     (case attr prop ''Name'' of
        Inl e \<Rightarrow> Inl e
      | Inr n \<Rightarrow>
          (case attr prop ''Type'' of
             Inl e \<Rightarrow> Inl e
           | Inr t \<Rightarrow>
               (case attr prop ''Nullable'' of
                  Inl e \<Rightarrow> Inl e
                | Inr nl \<Rightarrow>
                    Inr \<lparr>propertyName = n, propertyType = t, nullable = (nl \<noteq> JStr ''false'')\<rparr>)))"

definition extractEntity :: "jsval \<Rightarrow> error + ODataEntity" where
  "extractEntity entity =
     (case attr entity ''Name'' of
        Inl e \<Rightarrow> Inl e
      | Inr n \<Rightarrow>
          (case jsMap extractProperty (orElse (member entity ''Property'') (JArr [])) of
             Inl e \<Rightarrow> Inl e
           | Inr ps \<Rightarrow> Inr \<lparr>entityName = n, properties = ps\<rparr>))"

definition extractFunction :: "jsval \<Rightarrow> error + ODataFunction" where
  "extractFunction func =
     (case attr func ''Name'' of
        Inl e \<Rightarrow> Inl e
      | Inr n \<Rightarrow>
          (case attr func ''ReturnType'' of
             Inl e \<Rightarrow> Inl e
           | Inr rt \<Rightarrow> Inr \<lparr>functionName = n, returnType = rt\<rparr>))"

text \<open>\<open>parsed?.['edmx:Edmx']?.['edmx:DataServices']?.[0]?.Schema?.[0]\<close>\<close>

definition schemaOf :: "jsval \<Rightarrow> jsval" where
  "schemaOf parsed =
     optElementAt
       (optMember
          (optElementAt (optMember (optMember parsed ''edmx:Edmx'') ''edmx:DataServices'') 0)
          ''Schema'')
       0"

definition entityTypesOf :: "jsval \<Rightarrow> jsval" where
  "entityTypesOf schema = orElse (member schema ''EntityType'') (JArr [])"

definition functionImportsOf :: "jsval \<Rightarrow> jsval" where
  "functionImportsOf schema =
     orElse (optMember (optElementAt (member schema ''EntityContainer'') 0) ''FunctionImport'')
       (JArr [])"

definition extractMetadata :: "jsval \<Rightarrow> ODataMetadata" where
  "extractMetadata parsed =
     (if \<not> truthy (schemaOf parsed) then \<lparr>entities = [], functions' = [], raw = None\<rparr>
      else case jsMap extractEntity (entityTypesOf (schemaOf parsed)) of
             Inl e \<Rightarrow> \<lparr>entities = [], functions' = [], raw = Some parsed\<rparr>
           | Inr es \<Rightarrow>
               (case jsMap extractFunction (functionImportsOf (schemaOf parsed)) of
                  Inl e \<Rightarrow> \<lparr>entities = [], functions' = [], raw = Some parsed\<rparr>
                | Inr fs \<Rightarrow> \<lparr>entities = es, functions' = fs, raw = None\<rparr>))"

text \<open>
  \<open>parseXML\<close> is the promisified parser of the XML library: a parameter, which gives
  the parse tree of a document or rejects it with an error.
\<close>

definition getServiceMetadata ::
  "(jsval \<Rightarrow> error + jsval) \<Rightarrow> 'w backend \<Rightarrow> 'w \<Rightarrow> session \<Rightarrow> string \<Rightarrow>
     (error + ODataMetadata) \<times> session \<times> 'w" where
  "getServiceMetadata parseXML be w s serviceName =
     (case ensureConnected s of
        Inl e \<Rightarrow> (Inl e, s, w)
      | Inr u \<Rightarrow>
          (case send be w s
                  (httpGet (serviceName @ ''/$metadata'') [(''Accept'', ''application/xml'')] None) of
             (Inl e, s', w') \<Rightarrow>
               (Inl (Error (''Failed to get service metadata: '' @ getErrorMessage e)), s', w')
           | (Inr resp, s', w') \<Rightarrow>
               (case parseXML (rdata resp) of
                  Inl e \<Rightarrow>
                    (Inl (Error (''Failed to get service metadata: '' @ getErrorMessage e)), s', w')
                | Inr parsed \<Rightarrow> (Inr (extractMetadata parsed), s', w'))))"

section \<open>Observing the exchanges\<close>

text \<open>What a reply is to axios: resolved (a status from 200 to 299) or not, and its status.\<close>

definition resolves :: "reply \<Rightarrow> bool" where
  "resolves rep =
     (case rep of Replied resp \<Rightarrow> 200 \<le> status resp \<and> status resp < 300 | _ \<Rightarrow> False)"

definition replyStatus :: "reply \<Rightarrow> nat option" where
  "replyStatus rep = (case rep of Replied resp \<Rightarrow> Some (status resp) | _ \<Rightarrow> None)"

text \<open>
  A service that also records every exchange, the request as it arrived and the
  reply given, in order: the record tells which requests an operation issued and what
  it received.
\<close>

definition logged :: "'w backend \<Rightarrow> ('w \<times> (request \<times> reply) list) backend" where
  "logged be = (\<lambda>(w, log) r. case be w r of (rep, w') \<Rightarrow> (rep, (w', log @ [(r, rep)])))"

definition requestsOf :: "'a \<times> session \<times> 'w \<times> (request \<times> reply) list \<Rightarrow> request list" where
  "requestsOf x = map fst (snd (snd (snd x)))"

definition exchangesOf ::
  "'a \<times> session \<times> 'w \<times> (request \<times> reply) list \<Rightarrow> (request \<times> reply) list" where
  "exchangesOf x = snd (snd (snd x))"

definition sessionOf :: "'a \<times> session \<times> 'w \<Rightarrow> session" where
  "sessionOf x = fst (snd x)"

text \<open>A service that never answers, and one that answers every request the same.\<close>

definition quiet :: "unit backend" where
  "quiet w r = (NoReply, w)"

definition always :: "response \<Rightarrow> unit backend" where
  "always resp w r = (Replied resp, w)"

definition plain :: "nat \<Rightarrow> string \<Rightarrow> jsval \<Rightarrow> response" where
  "plain code text body =
     \<lparr>status = code, statusText = text, hdrCsrfToken = None, hdrSetCookie = None, rdata = body\<rparr>"

definition worldOf :: "'a \<times> session \<times> 'w \<Rightarrow> 'w" where
  "worldOf x = snd (snd x)"

text \<open>Sample inputs: a configuration, and a session holding a token and a cookie.\<close>

definition cfg0 :: SAPODataConfig where
  "cfg0 = \<lparr>baseUrl = ''https://host/sap/opu/odata/sap/'', username = ''user'',
           password = ''secret'', client = None, timeout = 30000, validateSSL = True,
           enableCSRF = True\<rparr>"

definition staleSession :: session where
  "staleSession = \<lparr>connected = True, csrfToken = Some ''tok'', cookies = [''sid=1'']\<rparr>"

section \<open>The parse tree as a document\<close>

text \<open>
  What the document says, read off the parse tree without the client's code: the
  \<open>EntityType\<close> nodes of the first schema, the \<open>Property\<close> nodes of an entity type, and
  whether a property node carries the attribute \<open>Nullable="false"\<close>.
\<close>

definition entityNodes :: "jsval \<Rightarrow> jsval list" where
  "entityNodes parsed = (case entityTypesOf (schemaOf parsed) of JArr es \<Rightarrow> es | _ \<Rightarrow> [])"

definition propertyNodes :: "jsval \<Rightarrow> jsval list" where
  "propertyNodes entity =
     (case orElse (member entity ''Property'') (JArr []) of JArr ps \<Rightarrow> ps | _ \<Rightarrow> [])"

definition markedNotNullable :: "jsval \<Rightarrow> bool" where
  "markedNotNullable prop = (member (member prop ''$'') ''Nullable'' = JStr ''false'')"

text \<open>
  Two sample trees, in the shape the XML library gives (attributes under \<open>$\<close>, child
  elements as arrays): one entity type \<open>Product\<close> with a property marked
  \<open>Nullable="false"\<close> and a property without the attribute; and a schema whose entity
  type has no attributes at all, on which the extraction fails.
\<close>

definition exampleTree :: jsval where
  "exampleTree =
     JObj [(''edmx:Edmx'', JObj [(''edmx:DataServices'', JArr [JObj [(''Schema'', JArr [JObj
       [(''EntityType'', JArr [JObj
          [(''$'', JObj [(''Name'', JStr ''Product'')]),
           (''Property'', JArr
              [JObj [(''$'', JObj [(''Name'', JStr ''ID''), (''Type'', JStr ''Edm.String''),
                                 (''Nullable'', JStr ''false'')])],
               JObj [(''$'', JObj [(''Name'', JStr ''Price''),
                                 (''Type'', JStr ''Edm.Decimal'')])]])]])]])]])])]"

definition brokenTree :: jsval where
  "brokenTree =
     JObj [(''edmx:Edmx'', JObj [(''edmx:DataServices'', JArr [JObj [(''Schema'', JArr [JObj
       [(''EntityType'', JArr [JObj [(''Property'', JArr [])]])]])]])])]"

text \<open>
  A reply lists services when it is a success whose body holds under \<open>d.results\<close> an
  array of records, none of them null or undefined and each with an \<open>ID\<close> that converts
  to a string. Every other reply to a catalog request gives no list: a failure, a body
  without results, results that are no array, a record that cannot be mapped.
\<close>

definition listsServices :: "reply \<Rightarrow> bool" where
  "listsServices rep =
     (case rep of
        Replied resp \<Rightarrow>
          200 \<le> status resp \<and> status resp < 300
          \<and> (case member (member (rdata resp) ''d'') ''results'' of
                JArr records \<Rightarrow>
                  list_all (\<lambda>sv. \<not> nullish sv \<and> toStr (member sv ''ID'') \<noteq> None) records
              | _ \<Rightarrow> False)
      | _ \<Rightarrow> False)"

text \<open>
  Sample services. On the first, the first catalog path answers with a logon page, the
  second with a results array holding a null record, and the third lists two service
  records. The second has no catalog (its first catalog path answers without results,
  the others do not exist) and two of the well-known names exist on it.
\<close>

definition serviceA :: jsval where
  "serviceA = JObj [(''ID'', JStr ''ZSALES_SRV''), (''Title'', JStr ''Sales''), (''Version'', JStr ''1'')]"

definition serviceB :: jsval where
  "serviceB = JObj [(''ID'', JStr ''ZSTOCK_SRV'')]"

definition catalogTwo :: "unit backend" where
  "catalogTwo w r =
     (if rurl r = ''../iwfnd/catalogservice;v=2/ServiceCollection''
      then (Replied (plain 200 ''OK'' (JStr ''<html>Logon</html>'')), w)
      else if rurl r = ''../IWFND/CATALOGSERVICE;v=2/ServiceCollection''
      then (Replied (plain 200 ''OK'' (JObj [(''d'', JObj [(''results'', JArr [JNull])])])), w)
      else if rurl r = ''../iwfnd/catalogservice/ServiceCollection''
      then (Replied (plain 200 ''OK'' (JObj [(''d'', JObj [(''results'', JArr [serviceA, serviceB])])])), w)
      else (Replied (plain 404 ''Not Found'' JNull), w))"

definition probeTwo :: "unit backend" where
  "probeTwo w r =
     (if rurl r = ''../iwfnd/catalogservice;v=2/ServiceCollection''
      then (Replied (plain 200 ''OK'' (JObj [(''d'', JObj [])])), w)
      else if rurl r = ''GWDEMO/'' \<or> rurl r = ''API_MATERIAL_SRV/''
      then (Replied (plain 200 ''OK'' (JStr ''<service/>'')), w)
      else (Replied (plain 404 ''Not Found'' JNull), w))"

section \<open>URL-decoding\<close>



definition charBetween :: "char \<Rightarrow> char \<Rightarrow> char \<Rightarrow> bool" where
  "charBetween lo hi c = ((of_char lo :: nat) \<le> of_char c \<and> (of_char c :: nat) \<le> of_char hi)"

definition unreservedChar :: "char \<Rightarrow> bool" where
  "unreservedChar c =
     (charBetween (CHR ''A'') (CHR ''Z'') c \<or> charBetween (CHR ''a'') (CHR ''z'') c
      \<or> charBetween (CHR ''0'') (CHR ''9'') c \<or> c \<in> set ''-_.!~*()'' \<or> c = CHR 0x27)"

section \<open>The operations of the client, as one type\<close>

datatype operation =
    Connect
  | Disconnect
  | IsConnected
  | GetServices
  | GetServiceMetadata string
  | QueryEntitySet string string ODataQueryOptions
  | GetEntity string string "(string \<times> jsval) list"
  | CreateEntity string string jsval
  | UpdateEntity string string "(string \<times> jsval) list" jsval
  | DeleteEntity string string "(string \<times> jsval) list"
  | CallFunction string string "(string \<times> jsval) list"

definition thrown :: "error + 'a \<Rightarrow> error option" where
  "thrown r = (case r of Inl e \<Rightarrow> Some e | Inr v \<Rightarrow> None)"

fun perform ::
  "SAPODataConfig \<Rightarrow> (jsval \<Rightarrow> error + jsval) \<Rightarrow> 'w backend \<Rightarrow> 'w \<Rightarrow> session \<Rightarrow> operation \<Rightarrow>
     error option \<times> session \<times> 'w" where
  "perform cfg parseXML be w s Connect =
     (case connect cfg be w s of (r, s', w') \<Rightarrow> (thrown r, s', w'))"
| "perform cfg parseXML be w s Disconnect = (None, disconnect s, w)"
| "perform cfg parseXML be w s IsConnected =
     (case isConnected be w s of (r, s', w') \<Rightarrow> (None, s', w'))"
| "perform cfg parseXML be w s GetServices =
     (case getServices cfg be w s of (r, s', w') \<Rightarrow> (thrown r, s', w'))"
| "perform cfg parseXML be w s (GetServiceMetadata sn) =
     (case getServiceMetadata parseXML be w s sn of (r, s', w') \<Rightarrow> (thrown r, s', w'))"
| "perform cfg parseXML be w s (QueryEntitySet sn es opts) =
     (case queryEntitySet be w s sn es opts of (r, s', w') \<Rightarrow> (thrown r, s', w'))"
| "perform cfg parseXML be w s (GetEntity sn es kv) =
     (case getEntity be w s sn es kv of (r, s', w') \<Rightarrow> (thrown r, s', w'))"
| "perform cfg parseXML be w s (CreateEntity sn es body) =
     (case createEntity be w s sn es body of (r, s', w') \<Rightarrow> (thrown r, s', w'))"
| "perform cfg parseXML be w s (UpdateEntity sn es kv body) =
     (case updateEntity be w s sn es kv body of (r, s', w') \<Rightarrow> (thrown r, s', w'))"
| "perform cfg parseXML be w s (DeleteEntity sn es kv) =
     (case deleteEntity be w s sn es kv of (r, s', w') \<Rightarrow> (thrown r, s', w'))"
| "perform cfg parseXML be w s (CallFunction sn fn ps) =
     (case callFunction be w s sn fn ps of (r, s', w') \<Rightarrow> (thrown r, s', w'))"

fun requiresSession :: "operation \<Rightarrow> bool" where
  "requiresSession Connect = False"
| "requiresSession Disconnect = False"
| "requiresSession IsConnected = False"
| "requiresSession op = True"

text \<open>Whether some exchange of a record got the status 401.\<close>

definition got401 :: "(request \<times> reply) list \<Rightarrow> bool" where
  "got401 log = (Some 401 \<in> set (map (\<lambda>x. replyStatus (snd x)) log))"

definition noOptions :: ODataQueryOptions where
  "noOptions = \<lparr>select = None, filter_opt = None, orderby = None, top_opt = None, skip = None,
                expand = None\<rparr>"

definition unauthorizedCatalog :: "unit backend" where
  "unauthorizedCatalog w r =
     (if rurl r = [] then (Replied (plain 404 ''Not Found'' JNull), w)
      else (Replied (plain 401 ''Unauthorized'' JNull), w))"

definition cookieAfterUnauthorized :: "unit backend" where
  "cookieAfterUnauthorized w r =
     (if rurl r = ''../iwfnd/catalogservice;v=2/ServiceCollection''
      then (Replied (plain 401 ''Unauthorized'' JNull), w)
      else (Replied \<lparr>status = 200, statusText = ''OK'', hdrCsrfToken = Some ''T2'',
                     hdrSetCookie = Some [''sid=2; Path=/''], rdata = JNull\<rparr>, w))"

section \<open>Basic facts\<close>

lemma send_logged:
  "send (logged be) (w, log) s r =
     (case send be w s r of
        (res, s', w') \<Rightarrow>
          (res, s', (w', log @ [(requestInterceptor s r, fst (be w (requestInterceptor s r)))])))"
  by (simp add: send_def logged_def split: prod.splits reply.splits)

lemma rurl_requestInterceptor [simp]: "rurl (requestInterceptor s r) = rurl r"
  by (simp add: requestInterceptor_def Let_def split: option.splits)

lemma rmethod_requestInterceptor [simp]: "rmethod (requestInterceptor s r) = rmethod r"
  by (simp add: requestInterceptor_def Let_def split: option.splits)

section \<open>Query strings\<close>

lemma queryParams_top_filter:
  "queryParams \<lparr>select = None, filter_opt = Some ''Price gt 10'', orderby = None,
                top_opt = Some 5, skip = None, expand = None\<rparr>
     = [(''$filter'', ''Price gt 10''), (''$top'', ''5'')]"
  by (simp add: queryParams_def string_of_int_def string_of_nat.simps)

lemma searchParams_top_filter:
  "searchParamsToString [(''$filter'', ''Price gt 10''), (''$top'', ''5'')]
     = ''%24filter=Price+gt+10&%24top=5''"
  by (simp add: searchParamsToString_def formEncode_def formEncodeByte_def isAlnum_def
      percentByte_def hexDigit_def)

text \<open>
  C1 (as the code has it). For the options \<open>{top: 5, filter: "Price gt 10"}\<close>, every
  other option absent, a connected client issues exactly one request, and its URL is
  the path \<open>serviceName/entitySet\<close> followed by \<open>?%24filter=Price+gt+10&%24top=5\<close>: the
  filter comes before the top (the order of the appends), the dollar signs are escaped
  and the spaces are written \<open>+\<close> (the form encoding of \<open>URLSearchParams\<close>), and the
  absent options contribute nothing. This holds for every service, every state of it
  and every session that is connected.
\<close>

theorem queryEntitySet_top_filter_url:
  "map rurl (requestsOf (queryEntitySet (logged be) (w, []) (s\<lparr>connected := True\<rparr>)
       serviceName entitySet
       \<lparr>select = None, filter_opt = Some ''Price gt 10'', orderby = None,
        top_opt = Some 5, skip = None, expand = None\<rparr>))
   = [serviceName @ ''/'' @ entitySet @ ''?%24filter=Price+gt+10&%24top=5'']"
  by (simp add: queryEntitySet_def ensureConnected_def send_logged requestsOf_def
      queryParams_top_filter searchParams_top_filter withQuery_def httpGet_def
      split: prod.splits sum.splits)

text \<open>
  C1 as the specification words it fails: the URL requested for these options does
  not contain \<open>$top=5&$filter=Price%20gt%2010\<close>.
\<close>

theorem queryEntitySet_top_filter_counterexample:
  "map rurl (requestsOf (queryEntitySet (logged quiet) ((), [])
       \<lparr>connected = True, csrfToken = None, cookies = []\<rparr> ''S'' ''E''
       \<lparr>select = None, filter_opt = Some ''Price gt 10'', orderby = None,
        top_opt = Some 5, skip = None, expand = None\<rparr>))
     = [''S/E?%24filter=Price+gt+10&%24top=5'']
   \<and> \<not> sublist ''$top=5&$filter=Price%20gt%2010'' ''S/E?%24filter=Price+gt+10&%24top=5''"
proof -
  have "\<not> sublist ''$top=5&$filter=Price%20gt%2010'' ''S/E?%24filter=Price+gt+10&%24top=5''"
    by code_simp
  moreover have "map rurl (requestsOf (queryEntitySet (logged quiet) ((), [])
       \<lparr>connected = True, csrfToken = None, cookies = []\<rparr> ''S'' ''E''
       \<lparr>select = None, filter_opt = Some ''Price gt 10'', orderby = None,
        top_opt = Some 5, skip = None, expand = None\<rparr>))
     = [''S/E?%24filter=Price+gt+10&%24top=5'']"
    by (simp add: queryEntitySet_def ensureConnected_def send_logged requestsOf_def
        queryParams_top_filter searchParams_top_filter withQuery_def httpGet_def
        split: prod.splits sum.splits)
  ultimately show ?thesis by simp
qed

lemma queryEntitySet_cong:
  "queryParams o1 = queryParams o2 \<Longrightarrow>
     queryEntitySet be w s sn es o1 = queryEntitySet be w s sn es o2"
proof -
  assume a: "queryParams o1 = queryParams o2"
  show ?thesis unfolding queryEntitySet_def a ..
qed

lemma queryParams_falsy:
  "queryParams (opts\<lparr>top_opt := Some 0\<rparr>) = queryParams (opts\<lparr>top_opt := None\<rparr>)"
  "queryParams (opts\<lparr>skip := Some 0\<rparr>) = queryParams (opts\<lparr>skip := None\<rparr>)"
  "queryParams (opts\<lparr>filter_opt := Some []\<rparr>) = queryParams (opts\<lparr>filter_opt := None\<rparr>)"
  "queryParams (opts\<lparr>orderby := Some []\<rparr>) = queryParams (opts\<lparr>orderby := None\<rparr>)"
  "queryParams (opts\<lparr>select := Some []\<rparr>) = queryParams (opts\<lparr>select := None\<rparr>)"
  "queryParams (opts\<lparr>expand := Some []\<rparr>) = queryParams (opts\<lparr>expand := None\<rparr>)"
  by (simp_all add: queryParams_def)

lemma queryParams_absent:
  "top_opt opts = None \<Longrightarrow> ''$top'' \<notin> fst ` set (queryParams opts)"
  "skip opts = None \<Longrightarrow> ''$skip'' \<notin> fst ` set (queryParams opts)"
  "filter_opt opts = None \<Longrightarrow> ''$filter'' \<notin> fst ` set (queryParams opts)"
  "select opts = None \<Longrightarrow> ''$select'' \<notin> fst ` set (queryParams opts)"
  "expand opts = None \<Longrightarrow> ''$expand'' \<notin> fst ` set (queryParams opts)"
  by (auto simp add: queryParams_def split: option.splits if_splits)

text \<open>
  C10. \<open>queryEntitySet\<close> tests its options by truthiness. A \<open>top\<close> or \<open>skip\<close> of 0, an
  empty \<open>filter\<close> string and an empty \<open>select\<close> or \<open>expand\<close> list each give the very
  same call (result, session and effect on the service) as the absent option, for
  every service and session; and the parameters appended then hold no \<open>$top\<close>,
  \<open>$skip\<close>, \<open>$filter\<close>, \<open>$select\<close> or \<open>$expand\<close> respectively.
\<close>

theorem queryEntitySet_falsy_options:
  "queryEntitySet be w s sn es (opts\<lparr>top_opt := Some 0\<rparr>)
     = queryEntitySet be w s sn es (opts\<lparr>top_opt := None\<rparr>)
   \<and> queryEntitySet be w s sn es (opts\<lparr>skip := Some 0\<rparr>)
     = queryEntitySet be w s sn es (opts\<lparr>skip := None\<rparr>)
   \<and> queryEntitySet be w s sn es (opts\<lparr>filter_opt := Some ''''\<rparr>)
     = queryEntitySet be w s sn es (opts\<lparr>filter_opt := None\<rparr>)
   \<and> queryEntitySet be w s sn es (opts\<lparr>select := Some []\<rparr>)
     = queryEntitySet be w s sn es (opts\<lparr>select := None\<rparr>)
   \<and> queryEntitySet be w s sn es (opts\<lparr>expand := Some []\<rparr>)
     = queryEntitySet be w s sn es (opts\<lparr>expand := None\<rparr>)
   \<and> ''$top'' \<notin> fst ` set (queryParams (opts\<lparr>top_opt := Some 0\<rparr>))
   \<and> ''$skip'' \<notin> fst ` set (queryParams (opts\<lparr>skip := Some 0\<rparr>))
   \<and> ''$filter'' \<notin> fst ` set (queryParams (opts\<lparr>filter_opt := Some ''''\<rparr>))
   \<and> ''$select'' \<notin> fst ` set (queryParams (opts\<lparr>select := Some []\<rparr>))
   \<and> ''$expand'' \<notin> fst ` set (queryParams (opts\<lparr>expand := Some []\<rparr>))"
  by (simp add: queryEntitySet_cong [OF queryParams_falsy(1)]
      queryEntitySet_cong [OF queryParams_falsy(2)]
      queryEntitySet_cong [OF queryParams_falsy(3)]
      queryEntitySet_cong [OF queryParams_falsy(5)]
      queryEntitySet_cong [OF queryParams_falsy(6)]
      queryParams_falsy queryParams_absent)

section \<open>Key predicates\<close>

subsection \<open>Percent-encoding and its decoding\<close>








lemma unreserved_iff:
  "unreservedChar c = (isAlnum c \<or> c \<in> set ''-_.!~*'' \<or> c = CHR 0x27 \<or> c \<in> set ''()'')"
  by (auto simp add: unreservedChar_def charBetween_def isAlnum_def Let_def)

lemma uriComponentByte_cases:
  "uriComponentByte c = (if unreservedChar c then [c] else percentByte c)"
  by (simp add: uriComponentByte_def unreserved_iff)





lemma encode_unreserved:
  "list_all unreservedChar str \<Longrightarrow> concat (map uriComponentByte str) = str"
  by (induction str) (simp_all add: uriComponentByte_cases)

















section \<open>One exchange\<close>

lemma send_rejected:
  assumes "\<not> resolves (fst (be w (requestInterceptor s r)))"
  shows "\<exists>e w'. send be w s r = (Inl e, onError s e, w')
           \<and> (\<forall>n. hasStatus e n = (replyStatus (fst (be w (requestInterceptor s r))) = Some n))"
  using assms
  by (auto simp add: send_def resolves_def replyStatus_def hasStatus_def
      split: prod.splits reply.splits)

lemma send_resolved:
  assumes "resolves (fst (be w (requestInterceptor s r)))"
  shows "\<exists>resp w'. send be w s r = (Inr resp, onResponse s resp, w')"
  using assms
  by (auto simp add: send_def resolves_def split: prod.splits reply.splits)

lemma status_not_resolved:
  "replyStatus rep = Some n \<Longrightarrow> \<not> (200 \<le> n \<and> n < 300) \<Longrightarrow> \<not> resolves rep"
  by (auto simp add: replyStatus_def resolves_def split: reply.splits)

lemma connected_onResponse [simp]: "connected (onResponse s resp) = connected s"
  by (simp add: onResponse_def Let_def split: option.splits)

lemma connected_onError: "connected (onError s e) \<Longrightarrow> connected s"
  by (simp add: onError_def split: if_splits)

section \<open>connect and isConnected\<close>

lemma connect_failed_cleared:
  "isl (fst (connect cfg be w s)) \<Longrightarrow>
     sessionOf (connect cfg be w s) = \<lparr>connected = False, csrfToken = None, cookies = []\<rparr>"
  by (auto simp add: connect_def connectFailed_def sessionOf_def
      split: prod.splits sum.splits if_splits)

lemma connectionTest_401:
  assumes cat: "\<And>w r. rurl r = ''../iwfnd/catalogservice;v=2/ServiceCollection'' \<Longrightarrow>
             \<not> resolves (fst (be w r))"
    and probe: "\<And>w r. rurl r = [] \<Longrightarrow> replyStatus (fst (be w r)) = Some 401"
  shows "fst (connectionTest be w s) = Inl (Error ''Authentication failed - check username/password'')"
proof -
  let ?creq = "httpGet ''../iwfnd/catalogservice;v=2/ServiceCollection''
                [(''Accept'', ''application/json'')] (Some 10000)"
  let ?preq = "httpGet [] [(''Accept'', ''application/xml'')] (Some 10000)"
  have "\<not> resolves (fst (be w (requestInterceptor s ?creq)))"
    by (rule cat) (simp add: httpGet_def)
  with send_rejected [of be w s ?creq] obtain e1 w1
    where c1: "send be w s ?creq = (Inl e1, onError s e1, w1)" by blast
  have p: "replyStatus (fst (be w1 (requestInterceptor (onError s e1) ?preq))) = Some 401"
    by (rule probe) (simp add: httpGet_def)
  then have "\<not> resolves (fst (be w1 (requestInterceptor (onError s e1) ?preq)))"
    by (rule status_not_resolved) simp
  with send_rejected [of be w1 "onError s e1" ?preq] obtain e2 w2
    where c2: "send be w1 (onError s e1) ?preq = (Inl e2, onError (onError s e1) e2, w2)"
      and h: "\<And>n. hasStatus e2 n = (Some (401::nat) = Some n)"
    using p by auto
  have "hasStatus e2 401" "\<not> hasStatus e2 404"
    using h by simp_all
  then show ?thesis
    by (simp add: connectionTest_def c1 c2)
qed

text \<open>
  C4. When the catalog request of \<open>connect\<close> does not succeed and the service answers
  the bare base path with HTTP 401 (wrong credentials), \<open>connect\<close> throws the error
  \<open>Failed to connect to SAP OData service: Authentication failed - check
  username/password\<close>. And whenever \<open>connect\<close> throws, on whatever path, the session
  it leaves is fully cleared: not connected, no CSRF token, no cookies. Both hold from
  every session, for every configuration and every state of the service.
\<close>

theorem connect_failure_clears_session:
  "((\<forall>w r. rurl r = ''../iwfnd/catalogservice;v=2/ServiceCollection'' \<longrightarrow>
              \<not> resolves (fst (be w r)))
      \<and> (\<forall>w r. rurl r = [] \<longrightarrow> replyStatus (fst (be w r)) = Some 401)
     \<longrightarrow> fst (connect cfg be w s) =
           Inl (Error ''Failed to connect to SAP OData service: Authentication failed - check username/password''))
   \<and> (isl (fst (connect cfg be w s))
     \<longrightarrow> sessionOf (connect cfg be w s) = \<lparr>connected = False, csrfToken = None, cookies = []\<rparr>)"
proof (intro conjI impI)
  assume a: "(\<forall>w r. rurl r = ''../iwfnd/catalogservice;v=2/ServiceCollection'' \<longrightarrow>
                \<not> resolves (fst (be w r)))
      \<and> (\<forall>w r. rurl r = [] \<longrightarrow> replyStatus (fst (be w r)) = Some 401)"
  obtain s0 w0 where i: "(if enableCSRF cfg then fetchCSRFToken be w s else (s, w)) = (s0, w0)"
    by fastforce
  have "fst (connectionTest be w0 s0) = Inl (Error ''Authentication failed - check username/password'')"
    using a by (intro connectionTest_401) simp_all
  then obtain s1 w1 where "connectionTest be w0 s0 =
      (Inl (Error ''Authentication failed - check username/password''), s1, w1)"
    by (cases "connectionTest be w0 s0") auto
  then show "fst (connect cfg be w s) =
           Inl (Error ''Failed to connect to SAP OData service: Authentication failed - check username/password'')"
    by (simp add: connect_def i connectFailed_def getErrorMessage_def)
next
  assume "isl (fst (connect cfg be w s))"
  then show "sessionOf (connect cfg be w s) = \<lparr>connected = False, csrfToken = None, cookies = []\<rparr>"
    by (rule connect_failed_cleared)
qed

theorem connect_failure_clears_session_witness:
  "fst (connect cfg0 (always (plain 401 ''Unauthorized'' JNull)) () staleSession) =
     Inl (Error ''Failed to connect to SAP OData service: Authentication failed - check username/password'')
   \<and> sessionOf (connect cfg0 (always (plain 401 ''Unauthorized'' JNull)) () staleSession) =
     \<lparr>connected = False, csrfToken = None, cookies = []\<rparr>"
proof -
  have h1: "\<forall>w r. rurl r = ''../iwfnd/catalogservice;v=2/ServiceCollection'' \<longrightarrow>
             \<not> resolves (fst (always (plain 401 ''Unauthorized'' JNull) w r))"
    by (simp add: always_def plain_def resolves_def)
  have h2: "\<forall>w r. rurl r = [] \<longrightarrow>
             replyStatus (fst (always (plain 401 ''Unauthorized'' JNull) w r)) = Some 401"
    by (simp add: always_def plain_def replyStatus_def)
  note t = connect_failure_clears_session
      [of "always (plain 401 ''Unauthorized'' JNull)" cfg0 "()" staleSession]
  from t h1 h2
  have r1: "fst (connect cfg0 (always (plain 401 ''Unauthorized'' JNull)) () staleSession) =
     Inl (Error ''Failed to connect to SAP OData service: Authentication failed - check username/password'')"
    by blast
  then have "isl (fst (connect cfg0 (always (plain 401 ''Unauthorized'' JNull)) () staleSession))"
    by simp
  with t
  have "sessionOf (connect cfg0 (always (plain 401 ''Unauthorized'' JNull)) () staleSession) =
     \<lparr>connected = False, csrfToken = None, cookies = []\<rparr>"
    by blast
  with r1 show ?thesis by simp
qed

lemma connectionTest_404:
  assumes probe: "\<And>w r. rmethod r = GET \<Longrightarrow> rurl r = [] \<Longrightarrow>
             replyStatus (fst (be w r)) = Some 404"
  shows "\<exists>s' w'. connectionTest be w s = (Inr True, s', w')"
proof -
  let ?creq = "httpGet ''../iwfnd/catalogservice;v=2/ServiceCollection''
                [(''Accept'', ''application/json'')] (Some 10000)"
  let ?preq = "httpGet [] [(''Accept'', ''application/xml'')] (Some 10000)"
  show ?thesis
  proof (cases "resolves (fst (be w (requestInterceptor s ?creq)))")
    case True
    with send_resolved [of be w s ?creq] show ?thesis
      by (auto simp add: connectionTest_def)
  next
    case False
    with send_rejected [of be w s ?creq] obtain e1 w1
      where c1: "send be w s ?creq = (Inl e1, onError s e1, w1)" by blast
    have p: "replyStatus (fst (be w1 (requestInterceptor (onError s e1) ?preq))) = Some 404"
      by (rule probe) (simp_all add: httpGet_def)
    then have "\<not> resolves (fst (be w1 (requestInterceptor (onError s e1) ?preq)))"
      by (rule status_not_resolved) simp
    with send_rejected [of be w1 "onError s e1" ?preq] obtain e2 w2
      where c2: "send be w1 (onError s e1) ?preq = (Inl e2, onError (onError s e1) e2, w2)"
        and h: "\<And>n. hasStatus e2 n = (Some (404::nat) = Some n)"
      using p by auto
    have "hasStatus e2 404"
      using h by simp
    then show ?thesis
      by (simp add: connectionTest_def c1 c2)
  qed
qed

lemma isConnected_404:
  assumes "connected s"
    and "replyStatus (fst (be w (requestInterceptor s
            (httpGet [] [(''Accept'', ''application/xml'')] (Some 5000))))) = Some 404"
  shows "fst (isConnected be w s) \<and> sessionOf (isConnected be w s) = s"
  using assms
  by (auto simp add: isConnected_def send_def replyStatus_def hasStatus_def onError_def sessionOf_def
      split: prod.splits reply.splits)

text \<open>
  C5. When the service answers every GET of the bare base path with HTTP 404, then
  for every configuration, from every session and whatever the catalog request gives,
  \<open>connect\<close> returns without throwing and leaves the session connected, and the
  \<open>isConnected\<close> that follows returns true.
\<close>

theorem connect_then_isConnected_on_404:
  assumes probe: "\<And>w r. rmethod r = GET \<Longrightarrow> rurl r = [] \<Longrightarrow>
             replyStatus (fst (be w r)) = Some 404"
  shows "fst (connect cfg be w s) = Inr ()
       \<and> connected (sessionOf (connect cfg be w s))
       \<and> fst (isConnected be (worldOf (connect cfg be w s)) (sessionOf (connect cfg be w s)))"
proof -
  obtain s0 w0 where i: "(if enableCSRF cfg then fetchCSRFToken be w s else (s, w)) = (s0, w0)"
    by fastforce
  from connectionTest_404 [of be w0 s0] probe obtain s1 w1
    where t: "connectionTest be w0 s0 = (Inr True, s1, w1)" by blast
  have c: "connect cfg be w s = (Inr (), s1\<lparr>connected := True\<rparr>, w1)"
    by (simp add: connect_def i t)
  have "replyStatus (fst (be w1 (requestInterceptor (s1\<lparr>connected := True\<rparr>)
            (httpGet [] [(''Accept'', ''application/xml'')] (Some 5000))))) = Some 404"
    by (rule probe) (simp_all add: httpGet_def)
  with isConnected_404 [of "s1\<lparr>connected := True\<rparr>" be w1]
  have "fst (isConnected be w1 (s1\<lparr>connected := True\<rparr>))" by simp
  then show ?thesis
    by (simp add: c sessionOf_def worldOf_def)
qed

theorem connect_then_isConnected_on_404_witness:
  "fst (connect cfg0 (always (plain 404 ''Not Found'' JNull)) () newClient) = Inr ()
   \<and> connected (sessionOf (connect cfg0 (always (plain 404 ''Not Found'' JNull)) () newClient))
   \<and> fst (isConnected (always (plain 404 ''Not Found'' JNull))
        (worldOf (connect cfg0 (always (plain 404 ''Not Found'' JNull)) () newClient))
        (sessionOf (connect cfg0 (always (plain 404 ''Not Found'' JNull)) () newClient)))"
proof -
  have h: "\<And>w r. rmethod r = GET \<Longrightarrow> rurl r = [] \<Longrightarrow>
      replyStatus (fst (always (plain 404 ''Not Found'' JNull) w r)) = Some 404"
    by (simp add: always_def plain_def replyStatus_def)
  show ?thesis
    using connect_then_isConnected_on_404 [of "always (plain 404 ''Not Found'' JNull)" cfg0 "()" newClient] h
    by blast
qed

text \<open>
  C9 (as the code has it). \<open>isConnected\<close> on a session whose flag is false returns
  false at once, without any request and without changing anything. On a session
  whose flag is true it issues exactly one request, a GET of the bare base path, and
  classifies the reply \<open>rep\<close>: a success keeps the session connected and returns true;
  HTTP 404 returns true and leaves the session as it was; HTTP 401 returns false and
  leaves the session fully cleared; HTTP 403 returns false and only turns the flag
  off; every reply that is neither a success nor a 404 (any other status, no
  response, a request that could not be sent) returns false with the flag off.
\<close>

theorem isConnected_probe:
  fixes be :: "'w backend"
  defines "rep \<equiv> \<lambda>w s. fst (be w (requestInterceptor s
                 (httpGet [] [(''Accept'', ''application/xml'')] (Some 5000))))"
  shows
  "(\<not> connected s \<longrightarrow> isConnected (logged be) (w, []) s = (False, s, (w, [])))
   \<and> (connected s \<longrightarrow>
        requestsOf (isConnected (logged be) (w, []) s)
          = [requestInterceptor s (httpGet [] [(''Accept'', ''application/xml'')] (Some 5000))]
      \<and> (resolves (rep w s) \<longrightarrow>
            fst (isConnected be w s) \<and> connected (sessionOf (isConnected be w s)))
      \<and> (replyStatus (rep w s) = Some 404 \<longrightarrow>
            fst (isConnected be w s) \<and> sessionOf (isConnected be w s) = s)
      \<and> (replyStatus (rep w s) = Some 401 \<longrightarrow>
            \<not> fst (isConnected be w s)
            \<and> sessionOf (isConnected be w s) = \<lparr>connected = False, csrfToken = None, cookies = []\<rparr>)
      \<and> (replyStatus (rep w s) = Some 403 \<longrightarrow>
            \<not> fst (isConnected be w s) \<and> sessionOf (isConnected be w s) = s\<lparr>connected := False\<rparr>)
      \<and> (\<not> resolves (rep w s) \<and> replyStatus (rep w s) \<noteq> Some 404 \<longrightarrow>
            \<not> fst (isConnected be w s) \<and> \<not> connected (sessionOf (isConnected be w s))))"
proof (intro conjI impI)
  assume "\<not> connected s"
  then show "isConnected (logged be) (w, []) s = (False, s, (w, []))"
    by (simp add: isConnected_def)
next
  assume "connected s"
  then show "requestsOf (isConnected (logged be) (w, []) s)
          = [requestInterceptor s (httpGet [] [(''Accept'', ''application/xml'')] (Some 5000))]"
    by (simp add: isConnected_def send_logged requestsOf_def split: prod.splits sum.splits)
next
  assume "connected s" "resolves (rep w s)"
  then show "fst (isConnected be w s)" "connected (sessionOf (isConnected be w s))"
    by (auto simp add: rep_def isConnected_def send_def resolves_def sessionOf_def
        split: prod.splits reply.splits)
next
  assume "connected s" "replyStatus (rep w s) = Some 404"
  then show "fst (isConnected be w s)" "sessionOf (isConnected be w s) = s"
    using isConnected_404 [of s be w] by (simp_all add: rep_def)
next
  assume "connected s" "replyStatus (rep w s) = Some 401"
  then show "\<not> fst (isConnected be w s)"
    "sessionOf (isConnected be w s) = \<lparr>connected = False, csrfToken = None, cookies = []\<rparr>"
    by (auto simp add: rep_def isConnected_def send_def replyStatus_def hasStatus_def onError_def
        sessionOf_def split: prod.splits reply.splits)
next
  assume "connected s" "replyStatus (rep w s) = Some 403"
  then show "\<not> fst (isConnected be w s)" "sessionOf (isConnected be w s) = s\<lparr>connected := False\<rparr>"
    by (auto simp add: rep_def isConnected_def send_def replyStatus_def hasStatus_def onError_def
        sessionOf_def split: prod.splits reply.splits)
next
  assume "connected s" "\<not> resolves (rep w s) \<and> replyStatus (rep w s) \<noteq> Some 404"
  then show "\<not> fst (isConnected be w s)" "\<not> connected (sessionOf (isConnected be w s))"
    by (auto simp add: rep_def isConnected_def send_def replyStatus_def resolves_def hasStatus_def
        onError_def sessionOf_def split: prod.splits reply.splits)
qed

theorem isConnected_probe_witness:
  "fst (isConnected (always (plain 404 ''Not Found'' JNull)) () staleSession)
   \<and> sessionOf (isConnected (always (plain 404 ''Not Found'' JNull)) () staleSession) = staleSession
   \<and> \<not> fst (isConnected (always (plain 401 ''Unauthorized'' JNull)) () staleSession)
   \<and> sessionOf (isConnected (always (plain 401 ''Unauthorized'' JNull)) () staleSession)
       = \<lparr>connected = False, csrfToken = None, cookies = []\<rparr>
   \<and> \<not> fst (isConnected quiet () staleSession)
   \<and> \<not> connected (sessionOf (isConnected quiet () staleSession))
   \<and> isConnected (logged quiet) ((), []) newClient = (False, newClient, ((), []))"
proof -
  note t1 = isConnected_probe
    [where s = staleSession and be = "always (plain 404 ''Not Found'' JNull)" and w = "()"]
  note t2 = isConnected_probe
    [where s = staleSession and be = "always (plain 401 ''Unauthorized'' JNull)" and w = "()"]
  note t3 = isConnected_probe [where s = staleSession and be = quiet and w = "()"]
  note t4 = isConnected_probe [where s = newClient and be = quiet and w = "()"]
  have c: "connected staleSession" "\<not> connected newClient"
    by (simp_all add: staleSession_def newClient_def)
  have r: "\<And>r. replyStatus (fst (always (plain 404 ''Not Found'' JNull) () r)) = Some 404"
    "\<And>r. replyStatus (fst (always (plain 401 ''Unauthorized'' JNull) () r)) = Some 401"
    "\<And>r. \<not> resolves (fst (quiet () r))" "\<And>r. replyStatus (fst (quiet () r)) \<noteq> Some 404"
    by (simp_all add: always_def plain_def quiet_def replyStatus_def resolves_def)
  show ?thesis
    using t1 t2 t3 t4 c r by simp
qed

text \<open>
  C9 as the specification words it fails: on a client that is not connected the call
  makes no round-trip, and a service that would answer 404 is not reported connected.
\<close>

theorem isConnected_no_round_trip_counterexample:
  "isConnected (logged (always (plain 404 ''Not Found'' JNull))) ((), []) newClient
     = (False, newClient, ((), []))"
  by (simp add: isConnected_def newClient_def)

section \<open>Metadata\<close>

lemma mapE_Inr: "mapE f xs = Inr ys \<Longrightarrow> list_all2 (\<lambda>x y. f x = Inr y) xs ys"
  by (induction xs arbitrary: ys) (auto split: sum.splits)

lemma list_all2_map_eq:
  "list_all2 P xs ys \<Longrightarrow> (\<And>x y. P x y \<Longrightarrow> g y = h x) \<Longrightarrow> map g ys = map h xs"
  by (induction rule: list_all2_induct) auto

lemma jsMap_Inr:
  "jsMap f v = Inr ys \<Longrightarrow> \<exists>xs. v = JArr xs \<and> list_all2 (\<lambda>x y. f x = Inr y) xs ys"
  by (auto simp add: jsMap_def split: jsval.splits dest: mapE_Inr)

lemma extractProperty_nullable:
  "extractProperty prop = Inr p \<Longrightarrow> nullable p = (\<not> markedNotNullable prop)"
  by (auto simp add: extractProperty_def attr_def getMember_def markedNotNullable_def
      split: sum.splits if_splits)

lemma extractEntity_nullable:
  assumes "extractEntity entity = Inr e"
  shows "map nullable (properties e) = map (\<lambda>p. \<not> markedNotNullable p) (propertyNodes entity)"
proof -
  from assms obtain n ps where
    ps: "jsMap extractProperty (orElse (member entity ''Property'') (JArr [])) = Inr ps"
    and e: "e = \<lparr>entityName = n, properties = ps\<rparr>"
    by (auto simp add: extractEntity_def split: sum.splits)
  from jsMap_Inr [OF ps] obtain xs where
    xs: "orElse (member entity ''Property'') (JArr []) = JArr xs"
    and l: "list_all2 (\<lambda>x y. extractProperty x = Inr y) xs ps"
    by blast
  have "map nullable ps = map (\<lambda>p. \<not> markedNotNullable p) xs"
    using l by (rule list_all2_map_eq) (rule extractProperty_nullable)
  then show ?thesis
    by (simp add: e propertyNodes_def xs)
qed

lemma extractMetadata_nullable:
  assumes "truthy (schemaOf parsed)" and "raw (extractMetadata parsed) = None"
  shows "map (\<lambda>e. map nullable (properties e)) (entities (extractMetadata parsed))
           = map (\<lambda>entity. map (\<lambda>prop. \<not> markedNotNullable prop) (propertyNodes entity))
               (entityNodes parsed)"
proof -
  from assms obtain es where
    es: "jsMap extractEntity (entityTypesOf (schemaOf parsed)) = Inr es"
    and m: "entities (extractMetadata parsed) = es"
    by (auto simp add: extractMetadata_def split: sum.splits)
  from jsMap_Inr [OF es] obtain xs where
    xs: "entityTypesOf (schemaOf parsed) = JArr xs"
    and l: "list_all2 (\<lambda>x y. extractEntity x = Inr y) xs es"
    by blast
  have "map (\<lambda>e. map nullable (properties e)) es
          = map (\<lambda>entity. map (\<lambda>prop. \<not> markedNotNullable prop) (propertyNodes entity)) xs"
    using l by (rule list_all2_map_eq) (rule extractEntity_nullable)
  then show ?thesis
    by (simp add: m entityNodes_def xs)
qed

lemma exampleTree_extract:
  "extractMetadata exampleTree =
     \<lparr>entities =
        [\<lparr>entityName = JStr ''Product'',
          properties =
            [\<lparr>propertyName = JStr ''ID'', propertyType = JStr ''Edm.String'', nullable = False\<rparr>,
             \<lparr>propertyName = JStr ''Price'', propertyType = JStr ''Edm.Decimal'', nullable = True\<rparr>]\<rparr>],
      functions' = [], raw = None\<rparr>"
  by (simp add: extractMetadata_def exampleTree_def schemaOf_def optMember_def optElementAt_def
      entityTypesOf_def functionImportsOf_def orElse_def jsMap_def extractEntity_def
      extractProperty_def attr_def getMember_def)


lemma getServiceMetadata_resolved:
  assumes "connected s"
    and "fst (be w (requestInterceptor s
               (httpGet (serviceName @ ''/$metadata'') [(''Accept'', ''application/xml'')] None)))
           = Replied resp"
    and "200 \<le> status resp" and "status resp < 300"
  shows "fst (getServiceMetadata parseXML be w s serviceName)
           = (case parseXML (rdata resp) of
                Inl e \<Rightarrow> Inl (Error (''Failed to get service metadata: '' @ getErrorMessage e))
              | Inr parsed \<Rightarrow> Inr (extractMetadata parsed))"
  using assms
  by (auto simp add: getServiceMetadata_def ensureConnected_def send_def
      split: prod.splits sum.splits reply.splits)

lemma extractMetadata_empty:
  "\<not> (truthy (schemaOf parsed) \<and> raw (extractMetadata parsed) = None) \<Longrightarrow>
     entities (extractMetadata parsed) = []"
  by (auto simp add: extractMetadata_def split: sum.splits)

text \<open>
  C7. When \<open>getServiceMetadata\<close> on a connected client receives the metadata document
  and the parser gives its tree, the call returns the model extracted from that tree,
  and in that model the \<open>nullable\<close> fields, entity type by entity type and property by
  property in document order, are false exactly at the properties the document marks
  with \<open>Nullable="false"\<close> and true at all others. (When the tree holds no schema or
  the extraction fails, the model has no entity and so no property.)
\<close>

theorem nullable_exactly_when_not_marked_false:
  assumes "connected s"
    and "fst (be w (requestInterceptor s
               (httpGet (serviceName @ ''/$metadata'') [(''Accept'', ''application/xml'')] None)))
           = Replied resp"
    and "200 \<le> status resp" and "status resp < 300"
    and "parseXML (rdata resp) = Inr parsed"
  shows "fst (getServiceMetadata parseXML be w s serviceName) = Inr (extractMetadata parsed)
       \<and> (if truthy (schemaOf parsed) \<and> raw (extractMetadata parsed) = None
          then map (\<lambda>e. map nullable (properties e)) (entities (extractMetadata parsed))
                 = map (\<lambda>entity. map (\<lambda>prop. \<not> markedNotNullable prop) (propertyNodes entity))
                     (entityNodes parsed)
          else entities (extractMetadata parsed) = [])"
proof -
  have "fst (getServiceMetadata parseXML be w s serviceName) = Inr (extractMetadata parsed)"
    using getServiceMetadata_resolved
        [where be = be and w = w and s = s and resp = resp and parseXML = parseXML
           and serviceName = serviceName] assms
    by simp
  moreover have "map (\<lambda>e. map nullable (properties e)) (entities (extractMetadata parsed))
                 = map (\<lambda>entity. map (\<lambda>prop. \<not> markedNotNullable prop) (propertyNodes entity))
                     (entityNodes parsed)"
    if "truthy (schemaOf parsed) \<and> raw (extractMetadata parsed) = None"
    using that extractMetadata_nullable [of parsed] by simp
  moreover have "entities (extractMetadata parsed) = []"
    if "\<not> (truthy (schemaOf parsed) \<and> raw (extractMetadata parsed) = None)"
    using that by (rule extractMetadata_empty)
  ultimately show ?thesis by simp
qed

lemma exampleTree_nodes:
  "map (\<lambda>entity. map (\<lambda>prop. \<not> markedNotNullable prop) (propertyNodes entity))
     (entityNodes exampleTree) = [[False, True]]"
  by (simp add: exampleTree_def entityNodes_def schemaOf_def optMember_def optElementAt_def
      entityTypesOf_def orElse_def propertyNodes_def markedNotNullable_def)

lemma always_reply:
  "fst (always resp () r) = Replied resp"
  by (simp add: always_def)

theorem nullable_exactly_when_not_marked_false_witness:
  "fst (getServiceMetadata (\<lambda>d. Inr exampleTree) (always (plain 200 ''OK'' (JStr ''<edmx:Edmx/>'')))
          () staleSession ''SVC'') = Inr (extractMetadata exampleTree)
   \<and> map (\<lambda>e. map nullable (properties e)) (entities (extractMetadata exampleTree)) = [[False, True]]"
proof -
  have c: "connected staleSession"
    by (simp add: staleSession_def)
  have st: "200 \<le> status (plain 200 ''OK'' (JStr ''<edmx:Edmx/>''))"
    "status (plain 200 ''OK'' (JStr ''<edmx:Edmx/>'')) < 300"
    by (simp_all add: plain_def)
  have t: "truthy (schemaOf exampleTree) \<and> raw (extractMetadata exampleTree) = None"
    by (simp add: exampleTree_extract)
       (simp add: exampleTree_def schemaOf_def optMember_def optElementAt_def)
  show ?thesis
    using nullable_exactly_when_not_marked_false
        [where be = "always (plain 200 ''OK'' (JStr ''<edmx:Edmx/>''))" and w = "()"
           and s = staleSession and resp = "plain 200 ''OK'' (JStr ''<edmx:Edmx/>'')"
           and parseXML = "\<lambda>d. Inr exampleTree" and parsed = exampleTree
           and serviceName = "''SVC''"]
      c st t
    by (simp add: exampleTree_nodes always_reply)
qed

lemma raw_extractMetadata:
  "raw (extractMetadata parsed) = None
     \<or> extractMetadata parsed = \<lparr>entities = [], functions' = [], raw = Some parsed\<rparr>"
  by (simp add: extractMetadata_def split: sum.splits)

lemma raw_extractMetadata_iff:
  "(raw (extractMetadata parsed) \<noteq> None) =
     (truthy (schemaOf parsed)
      \<and> (isl (jsMap extractEntity (entityTypesOf (schemaOf parsed)))
         \<or> isl (jsMap extractFunction (functionImportsOf (schemaOf parsed)))))"
  by (simp add: extractMetadata_def split: sum.splits)

text \<open>
  C8 (as the code has it). When \<open>getServiceMetadata\<close> on a connected client receives
  the metadata document, a failure of the extraction from the parse tree does not
  propagate: the call returns the model, and a model that carries \<open>raw\<close> is the empty
  model annotated with the parse tree, which is the case exactly when the tree has a
  schema and mapping its entity types or its function imports throws. A failure of
  the parser itself is rethrown as \<open>Failed to get service metadata: ...\<close>.
\<close>

theorem getServiceMetadata_best_effort:
  assumes "connected s"
    and "fst (be w (requestInterceptor s
               (httpGet (serviceName @ ''/$metadata'') [(''Accept'', ''application/xml'')] None)))
           = Replied resp"
    and "200 \<le> status resp" and "status resp < 300"
  shows "fst (getServiceMetadata parseXML be w s serviceName)
           = (case parseXML (rdata resp) of
                Inl e \<Rightarrow> Inl (Error (''Failed to get service metadata: '' @ getErrorMessage e))
              | Inr parsed \<Rightarrow> Inr (extractMetadata parsed))
       \<and> (raw (extractMetadata parsed) = None
          \<or> extractMetadata parsed = \<lparr>entities = [], functions' = [], raw = Some parsed\<rparr>)
       \<and> (raw (extractMetadata parsed) \<noteq> None) =
           (truthy (schemaOf parsed)
            \<and> (isl (jsMap extractEntity (entityTypesOf (schemaOf parsed)))
               \<or> isl (jsMap extractFunction (functionImportsOf (schemaOf parsed)))))"
proof -
  have "fst (getServiceMetadata parseXML be w s serviceName)
           = (case parseXML (rdata resp) of
                Inl e \<Rightarrow> Inl (Error (''Failed to get service metadata: '' @ getErrorMessage e))
              | Inr parsed \<Rightarrow> Inr (extractMetadata parsed))"
    using getServiceMetadata_resolved
        [where be = be and w = w and s = s and resp = resp and parseXML = parseXML
           and serviceName = serviceName] assms
    by simp
  then show ?thesis
    using raw_extractMetadata [of parsed] raw_extractMetadata_iff [of parsed] by blast
qed

lemma brokenTree_extract:
  "extractMetadata brokenTree = \<lparr>entities = [], functions' = [], raw = Some brokenTree\<rparr>"
  by (simp add: extractMetadata_def brokenTree_def schemaOf_def optMember_def optElementAt_def
      entityTypesOf_def functionImportsOf_def orElse_def jsMap_def extractEntity_def
      attr_def getMember_def)

theorem getServiceMetadata_best_effort_witness:
  "fst (getServiceMetadata (\<lambda>d. Inr brokenTree) (always (plain 200 ''OK'' (JStr ''<edmx:Edmx/>'')))
          () staleSession ''SVC'')
     = Inr \<lparr>entities = [], functions' = [], raw = Some brokenTree\<rparr>"
proof -
  have c: "connected staleSession"
    by (simp add: staleSession_def)
  have st: "200 \<le> status (plain 200 ''OK'' (JStr ''<edmx:Edmx/>''))"
    "status (plain 200 ''OK'' (JStr ''<edmx:Edmx/>'')) < 300"
    by (simp_all add: plain_def)
  show ?thesis
    using getServiceMetadata_best_effort
        [where be = "always (plain 200 ''OK'' (JStr ''<edmx:Edmx/>''))" and w = "()"
           and s = staleSession and resp = "plain 200 ''OK'' (JStr ''<edmx:Edmx/>'')"
           and parseXML = "\<lambda>d. Inr brokenTree" and parsed = brokenTree
           and serviceName = "''SVC''"]
      c st
    by (simp add: brokenTree_extract always_reply)
qed

text \<open>
  C8 as the specification words it fails: when the parser rejects the document, the
  call throws.
\<close>

theorem getServiceMetadata_parse_failure_counterexample:
  "fst (getServiceMetadata (\<lambda>d. Inl (Error ''Unclosed root tag''))
          (always (plain 200 ''OK'' (JStr ''<edmx:Edmx>''))) () staleSession ''SVC'')
     = Inl (Error ''Failed to get service metadata: Unclosed root tag'')"
  by (simp add: getServiceMetadata_def ensureConnected_def staleSession_def send_def always_def
      plain_def getErrorMessage_def)

section \<open>Service discovery\<close>

lemma catalogLoop_source:
  "catalogLoop cfg be ps w s = (Some r, s', w') \<Longrightarrow> source r = Some ''gateway_catalog''"
proof (induction ps arbitrary: w s)
  case Nil
  then show ?case by simp
next
  case (Cons p ps)
  then show ?case
    by (auto split: prod.splits sum.splits if_splits)
qed

lemma send_Inr:
  assumes "send be w s r = (Inr resp, s', w')"
  shows "fst (be w (requestInterceptor s r)) = Replied resp"
    and "200 \<le> status resp" and "status resp < 300"
  using assms
  by (auto simp add: send_def split: prod.splits reply.splits if_splits)

lemma catalogService_thrown:
  "nullish sv \<or> toStr (member sv ''ID'') = None \<Longrightarrow> \<exists>e. catalogService cfg sv = Inl e"
  by (auto simp add: catalogService_def getMember_def)

lemma catalogService_Inr:
  "\<not> nullish sv \<Longrightarrow> toStr (member sv ''ID'') = Some ident \<Longrightarrow>
     catalogService cfg sv =
       Inr \<lparr>name = member sv ''ID'', title = orElse (member sv ''Title'') (member sv ''ID''),
            version = member sv ''Version'', url = Some (baseUrl cfg @ ident @ ''/'')\<rparr>"
  by (simp add: catalogService_def getMember_def)

lemma mapE_thrown:
  "\<not> list_all (\<lambda>sv. \<not> nullish sv \<and> toStr (member sv ''ID'') \<noteq> None) records \<Longrightarrow>
     \<exists>e. mapE (catalogService cfg) records = Inl e"
proof (induction records)
  case Nil
  then show ?case by simp
next
  case (Cons sv records)
  show ?case
  proof (cases "nullish sv \<or> toStr (member sv ''ID'') = None")
    case True
    from catalogService_thrown [OF this, of cfg] show ?thesis
      by auto
  next
    case False
    with Cons obtain e where "mapE (catalogService cfg) records = Inl e"
      by auto
    then show ?thesis
      by (cases "catalogService cfg sv") simp_all
  qed
qed

lemma jsMap_thrown:
  assumes "\<not> (case v of
                JArr records \<Rightarrow>
                  list_all (\<lambda>sv. \<not> nullish sv \<and> toStr (member sv ''ID'') \<noteq> None) records
              | _ \<Rightarrow> False)"
  shows "\<exists>e. jsMap (catalogService cfg) v = Inl e"
proof (cases v)
  case (JArr records)
  with assms mapE_thrown [of records cfg] show ?thesis
    by (simp add: jsMap_def)
qed (simp_all add: jsMap_def)

lemma catalogLoop_skip:
  assumes "\<And>w r. rurl r \<in> set ps \<Longrightarrow> \<not> listsServices (fst (be w r))"
  shows "\<exists>s' w'. catalogLoop cfg be ps w s = (None, s', w')"
  using assms
proof (induction ps arbitrary: w s)
  case Nil
  then show ?case by simp
next
  case (Cons p ps)
  let ?req = "httpGet p [(''Accept'', ''application/json'')] None"
  have n: "\<not> listsServices (fst (be w (requestInterceptor s ?req)))"
    by (rule Cons.prems) (simp add: httpGet_def)
  have ih: "\<exists>s' w'. catalogLoop cfg be ps w1 s1 = (None, s', w')" for w1 s1
    by (rule Cons.IH) (simp add: Cons.prems)
  obtain res s1 w1 where c: "send be w s ?req = (res, s1, w1)"
    by (cases "send be w s ?req") auto
  show ?case
  proof (cases res)
    case (Inl e)
    with c ih [of w1 s1] show ?thesis
      by simp
  next
    case (Inr resp)
    from send_Inr [OF c [unfolded Inr]] n
    have "\<not> (case member (member (rdata resp) ''d'') ''results'' of
                JArr records \<Rightarrow>
                  list_all (\<lambda>sv. \<not> nullish sv \<and> toStr (member sv ''ID'') \<noteq> None) records
              | _ \<Rightarrow> False)"
      by (simp add: listsServices_def)
    from jsMap_thrown [OF this, of cfg] obtain e where
      "jsMap (catalogService cfg) (member (member (rdata resp) ''d'') ''results'') = Inl e"
      by blast
    with c Inr ih [of w1 s1] show ?thesis
      by simp
  qed
qed

lemma rejected_lists_nothing: "\<not> resolves rep \<Longrightarrow> \<not> listsServices rep"
  by (auto simp add: resolves_def listsServices_def split: reply.splits)

lemma catalogLoop_append:
  "catalogLoop cfg be (ps @ qs) w s =
     (case catalogLoop cfg be ps w s of
        (Some r, s', w') \<Rightarrow> (Some r, s', w')
      | (None, s', w') \<Rightarrow> catalogLoop cfg be qs w' s')"
  by (induction ps arbitrary: w s) (auto split: prod.splits sum.splits option.splits)

lemma results_hasResults:
  "member (member body ''d'') ''results'' = JArr xs \<Longrightarrow> hasResults body"
  by (cases body; cases "member body ''d''") (auto simp add: hasResults_def)

lemma catalogLoop_hit:
  assumes "\<And>w r. rurl r = p \<Longrightarrow>
             \<exists>resp. fst (be w r) = Replied resp \<and> 200 \<le> status resp \<and> status resp < 300
                    \<and> member (member (rdata resp) ''d'') ''results'' = JArr [sva, svb]"
    and "\<not> nullish sva" and "\<not> nullish svb"
    and "toStr (member sva ''ID'') = Some ida" and "toStr (member svb ''ID'') = Some idb"
  shows "\<exists>s' w'. catalogLoop cfg be (p # rest) w s =
           (Some \<lparr>services =
                   [\<lparr>name = member sva ''ID'',
                     title = orElse (member sva ''Title'') (member sva ''ID''),
                     version = member sva ''Version'',
                     url = Some (baseUrl cfg @ ida @ ''/'')\<rparr>,
                    \<lparr>name = member svb ''ID'',
                     title = orElse (member svb ''Title'') (member svb ''ID''),
                     version = member svb ''Version'',
                     url = Some (baseUrl cfg @ idb @ ''/'')\<rparr>],
                  source = Some ''gateway_catalog'', catalogUrl = Some p, message = None\<rparr>,
            s', w')"
proof -
  let ?req = "httpGet p [(''Accept'', ''application/json'')] None"
  have "rurl (requestInterceptor s ?req) = p"
    by (simp add: httpGet_def)
  from assms(1) [OF this] obtain resp where
    r: "fst (be w (requestInterceptor s ?req)) = Replied resp"
    and st: "200 \<le> status resp" "status resp < 300"
    and res: "member (member (rdata resp) ''d'') ''results'' = JArr [sva, svb]"
    by blast
  from r st obtain w1 where c: "send be w s ?req = (Inr resp, onResponse s resp, w1)"
    by (cases "be w (requestInterceptor s ?req)") (auto simp add: send_def)
  have h: "hasResults (rdata resp)"
    using res by (rule results_hasResults)
  show ?thesis
    by (simp add: c h res jsMap_def catalogService_Inr [OF assms(2,4)]
        catalogService_Inr [OF assms(3,5)])
qed

lemma probeLoop_filter:
  assumes "\<And>w r n. n \<in> set ns \<Longrightarrow> rurl r = n @ ''/'' \<Longrightarrow> resolves (fst (be w r)) = ok n"
  shows "\<exists>s' w'. probeLoop cfg be ns w s acc =
           (acc @ map (commonService cfg) (filter ok ns), s', w')"
  using assms
proof (induction ns arbitrary: w s acc)
  case Nil
  then show ?case by simp
next
  case (Cons n ns)
  let ?req = "httpGet (n @ ''/'') [(''Accept'', ''application/xml'')] (Some 5000)"
  have k: "resolves (fst (be w (requestInterceptor s ?req))) = ok n"
    by (rule Cons.prems) (simp_all add: httpGet_def)
  have ih: "\<exists>s' w'. probeLoop cfg be ns w1 s1 acc1 =
           (acc1 @ map (commonService cfg) (filter ok ns), s', w')" for w1 s1 acc1
    by (rule Cons.IH) (simp add: Cons.prems)
  show ?case
  proof (cases "ok n")
    case True
    with k send_resolved [of be w s ?req] obtain resp w1
      where c: "send be w s ?req = (Inr resp, onResponse s resp, w1)" by blast
    from ih [of w1 "onResponse s resp" "acc @ [commonService cfg n]"] show ?thesis
      by (simp add: c True)
  next
    case False
    with k send_rejected [of be w s ?req] obtain e w1
      where c: "send be w s ?req = (Inl e, onError s e, w1)" by blast
    from ih [of w1 "onError s e" acc] show ?thesis
      by (simp add: c False)
  qed
qed

lemma getServices_tagged:
  assumes "connected s"
  shows "\<exists>r. fst (getServices cfg be w s) = Inr r
           \<and> (source r = Some ''gateway_catalog'' \<or> source r = Some ''common_services_test''
              \<or> source r = Some ''none_found'')"
  using assms
  by (auto simp add: getServices_def ensureConnected_def
      split: prod.splits option.splits dest: catalogLoop_source)

lemma getServices_catalog:
  assumes "connected s" and "k < length catalogPaths"
    and "\<And>w r. rurl r \<in> set (take k catalogPaths) \<Longrightarrow> \<not> listsServices (fst (be w r))"
    and "\<And>w r. rurl r = catalogPaths ! k \<Longrightarrow>
             \<exists>resp. fst (be w r) = Replied resp \<and> 200 \<le> status resp \<and> status resp < 300
                    \<and> member (member (rdata resp) ''d'') ''results'' = JArr [sva, svb]"
    and "\<not> nullish sva" and "\<not> nullish svb"
    and "toStr (member sva ''ID'') = Some ida" and "toStr (member svb ''ID'') = Some idb"
  shows "fst (getServices cfg be w s) =
           Inr \<lparr>services =
                   [\<lparr>name = member sva ''ID'',
                     title = orElse (member sva ''Title'') (member sva ''ID''),
                     version = member sva ''Version'',
                     url = Some (baseUrl cfg @ ida @ ''/'')\<rparr>,
                    \<lparr>name = member svb ''ID'',
                     title = orElse (member svb ''Title'') (member svb ''ID''),
                     version = member svb ''Version'',
                     url = Some (baseUrl cfg @ idb @ ''/'')\<rparr>],
                source = Some ''gateway_catalog'', catalogUrl = Some (catalogPaths ! k),
                message = None\<rparr>"
proof -
  have split: "catalogPaths = take k catalogPaths @ (catalogPaths ! k # drop (Suc k) catalogPaths)"
    using assms(2) by (simp add: id_take_nth_drop [symmetric])
  from catalogLoop_skip [of "take k catalogPaths" be cfg w s] assms(3)
  obtain s1 w1 where a: "catalogLoop cfg be (take k catalogPaths) w s = (None, s1, w1)"
    by blast
  from catalogLoop_hit [of "catalogPaths ! k" be sva svb ida idb cfg
      "drop (Suc k) catalogPaths" w1 s1] assms(4,5,6,7,8)
  obtain s2 w2 where b: "catalogLoop cfg be (catalogPaths ! k # drop (Suc k) catalogPaths) w1 s1 =
           (Some \<lparr>services =
                   [\<lparr>name = member sva ''ID'',
                     title = orElse (member sva ''Title'') (member sva ''ID''),
                     version = member sva ''Version'',
                     url = Some (baseUrl cfg @ ida @ ''/'')\<rparr>,
                    \<lparr>name = member svb ''ID'',
                     title = orElse (member svb ''Title'') (member svb ''ID''),
                     version = member svb ''Version'',
                     url = Some (baseUrl cfg @ idb @ ''/'')\<rparr>],
                  source = Some ''gateway_catalog'', catalogUrl = Some (catalogPaths ! k),
                  message = None\<rparr>,
            s2, w2)"
    by blast
  have "catalogLoop cfg be catalogPaths w s =
           (Some \<lparr>services =
                   [\<lparr>name = member sva ''ID'',
                     title = orElse (member sva ''Title'') (member sva ''ID''),
                     version = member sva ''Version'',
                     url = Some (baseUrl cfg @ ida @ ''/'')\<rparr>,
                    \<lparr>name = member svb ''ID'',
                     title = orElse (member svb ''Title'') (member svb ''ID''),
                     version = member svb ''Version'',
                     url = Some (baseUrl cfg @ idb @ ''/'')\<rparr>],
                  source = Some ''gateway_catalog'', catalogUrl = Some (catalogPaths ! k),
                  message = None\<rparr>,
            s2, w2)"
    by (subst split) (simp only: catalogLoop_append a b prod.case option.case)
  then show ?thesis
    using assms(1) by (simp add: getServices_def ensureConnected_def)
qed

lemma getServices_fallback:
  assumes "connected s"
    and "\<And>w r. rurl r \<in> set catalogPaths \<Longrightarrow> \<not> listsServices (fst (be w r))"
    and "\<And>w r n. n \<in> set commonServices \<Longrightarrow> rurl r = n @ ''/'' \<Longrightarrow>
            resolves (fst (be w r)) = ok n"
  shows "fst (getServices cfg be w s) =
           Inr (if filter ok commonServices \<noteq> []
                then \<lparr>services = map (commonService cfg) (filter ok commonServices),
                      source = Some ''common_services_test'', catalogUrl = None, message = None\<rparr>
                else \<lparr>services = [], source = Some ''none_found'', catalogUrl = None,
                      message = Some noneFoundMessage\<rparr>)"
proof -
  from catalogLoop_skip [of catalogPaths be cfg w s] assms(2)
  obtain s1 w1 where a: "catalogLoop cfg be catalogPaths w s = (None, s1, w1)"
    by blast
  from probeLoop_filter [of commonServices be ok cfg w1 s1 "[]"] assms(3)
  obtain s2 w2 where b: "probeLoop cfg be commonServices w1 s1 [] =
      (map (commonService cfg) (filter ok commonServices), s2, w2)"
    by auto
  show ?thesis
    using assms(1) by (simp add: getServices_def ensureConnected_def a b)
qed

text \<open>
  C6. On a connected client \<open>getServices\<close> always returns, and its result carries one
  of the three source tags. A catalog path variant gives a list when it answers with
  success and a results array of service records (each record an object or another value
  that is not null or undefined, its \<open>ID\<close> convertible to a string); every other answer
  gives none: a failure, a success without results, results that are no array, a record
  that cannot be mapped. When the variants before the \<open>k\<close>-th give no list and the
  \<open>k\<close>-th answers with a results array of two service records (their \<open>ID\<close>s printing as
  \<open>ida\<close> and \<open>idb\<close>, numbers among them safe integers), the result is exactly the two
  descriptors mapped from these records, tagged \<open>gateway_catalog\<close> (with the path that
  answered). When no catalog variant gives a list, the result is the list of the
  well-known names whose existence probe succeeds, in the order of the list, tagged
  \<open>common_services_test\<close>, if there is any (two names that answer give exactly these
  two); and if there is none, the empty list tagged \<open>none_found\<close> together with the
  diagnostic message, which is not empty.
\<close>

theorem getServices_source_tag:
  assumes "connected s"
  shows "(\<exists>r. fst (getServices cfg be w s) = Inr r
            \<and> (source r = Some ''gateway_catalog'' \<or> source r = Some ''common_services_test''
               \<or> source r = Some ''none_found''))
       \<and> (k < length catalogPaths
            \<and> (\<forall>w r. rurl r \<in> set (take k catalogPaths) \<longrightarrow> \<not> listsServices (fst (be w r)))
            \<and> (\<forall>w r. rurl r = catalogPaths ! k \<longrightarrow>
                  (\<exists>resp. fst (be w r) = Replied resp \<and> 200 \<le> status resp \<and> status resp < 300
                     \<and> member (member (rdata resp) ''d'') ''results'' = JArr [sva, svb]))
            \<and> \<not> nullish sva \<and> \<not> nullish svb
            \<and> toStr (member sva ''ID'') = Some ida \<and> toStr (member svb ''ID'') = Some idb
            \<and> safeNumbers (member sva ''ID'') \<and> safeNumbers (member svb ''ID'')
          \<longrightarrow> fst (getServices cfg be w s) =
                Inr \<lparr>services =
                   [\<lparr>name = member sva ''ID'',
                     title = orElse (member sva ''Title'') (member sva ''ID''),
                     version = member sva ''Version'',
                     url = Some (baseUrl cfg @ ida @ ''/'')\<rparr>,
                    \<lparr>name = member svb ''ID'',
                     title = orElse (member svb ''Title'') (member svb ''ID''),
                     version = member svb ''Version'',
                     url = Some (baseUrl cfg @ idb @ ''/'')\<rparr>],
                     source = Some ''gateway_catalog'', catalogUrl = Some (catalogPaths ! k),
                     message = None\<rparr>)
       \<and> ((\<forall>w r. rurl r \<in> set catalogPaths \<longrightarrow> \<not> listsServices (fst (be w r)))
            \<and> (\<forall>w r n. n \<in> set commonServices \<and> rurl r = n @ ''/'' \<longrightarrow>
                  resolves (fst (be w r)) = ok n)
          \<longrightarrow> fst (getServices cfg be w s) =
                Inr (if filter ok commonServices \<noteq> []
                     then \<lparr>services = map (commonService cfg) (filter ok commonServices),
                           source = Some ''common_services_test'', catalogUrl = None,
                           message = None\<rparr>
                     else \<lparr>services = [], source = Some ''none_found'', catalogUrl = None,
                           message = Some noneFoundMessage\<rparr>)
              \<and> noneFoundMessage \<noteq> [])"
proof (intro conjI impI)
  show "\<exists>r. fst (getServices cfg be w s) = Inr r
            \<and> (source r = Some ''gateway_catalog'' \<or> source r = Some ''common_services_test''
               \<or> source r = Some ''none_found'')"
    using assms by (rule getServices_tagged)
next
  assume a: "k < length catalogPaths
            \<and> (\<forall>w r. rurl r \<in> set (take k catalogPaths) \<longrightarrow> \<not> listsServices (fst (be w r)))
            \<and> (\<forall>w r. rurl r = catalogPaths ! k \<longrightarrow>
                  (\<exists>resp. fst (be w r) = Replied resp \<and> 200 \<le> status resp \<and> status resp < 300
                     \<and> member (member (rdata resp) ''d'') ''results'' = JArr [sva, svb]))
            \<and> \<not> nullish sva \<and> \<not> nullish svb
            \<and> toStr (member sva ''ID'') = Some ida \<and> toStr (member svb ''ID'') = Some idb
            \<and> safeNumbers (member sva ''ID'') \<and> safeNumbers (member svb ''ID'')"
  show "fst (getServices cfg be w s) =
                Inr \<lparr>services =
                   [\<lparr>name = member sva ''ID'',
                     title = orElse (member sva ''Title'') (member sva ''ID''),
                     version = member sva ''Version'',
                     url = Some (baseUrl cfg @ ida @ ''/'')\<rparr>,
                    \<lparr>name = member svb ''ID'',
                     title = orElse (member svb ''Title'') (member svb ''ID''),
                     version = member svb ''Version'',
                     url = Some (baseUrl cfg @ idb @ ''/'')\<rparr>],
                     source = Some ''gateway_catalog'', catalogUrl = Some (catalogPaths ! k),
                     message = None\<rparr>"
    using assms a
    by (intro getServices_catalog [where be = be and k = k and sva = sva and svb = svb
          and ida = ida and idb = idb]) blast+
next
  assume b: "(\<forall>w r. rurl r \<in> set catalogPaths \<longrightarrow> \<not> listsServices (fst (be w r)))
            \<and> (\<forall>w r n. n \<in> set commonServices \<and> rurl r = n @ ''/'' \<longrightarrow>
                  resolves (fst (be w r)) = ok n)"
  show "fst (getServices cfg be w s) =
                Inr (if filter ok commonServices \<noteq> []
                     then \<lparr>services = map (commonService cfg) (filter ok commonServices),
                           source = Some ''common_services_test'', catalogUrl = None,
                           message = None\<rparr>
                     else \<lparr>services = [], source = Some ''none_found'', catalogUrl = None,
                           message = Some noneFoundMessage\<rparr>)"
    using assms b
    by (intro getServices_fallback [where be = be and ok = ok]) blast+
next
  show "noneFoundMessage \<noteq> []"
    by (simp add: noneFoundMessage_def)
qed

lemma svc_simps:
  "\<not> nullish serviceA" "\<not> nullish serviceB"
  "member serviceA ''ID'' = JStr ''ZSALES_SRV''" "member serviceA ''Title'' = JStr ''Sales''"
  "member serviceA ''Version'' = JStr ''1''"
  "member serviceB ''ID'' = JStr ''ZSTOCK_SRV''" "member serviceB ''Title'' = JUndefined"
  "member serviceB ''Version'' = JUndefined"
  by (simp_all add: serviceA_def serviceB_def)

theorem getServices_source_tag_witness:
  "fst (getServices cfg0 catalogTwo () staleSession) =
     Inr \<lparr>services =
            [\<lparr>name = JStr ''ZSALES_SRV'', title = JStr ''Sales'', version = JStr ''1'',
              url = Some ''https://host/sap/opu/odata/sap/ZSALES_SRV/''\<rparr>,
             \<lparr>name = JStr ''ZSTOCK_SRV'', title = JStr ''ZSTOCK_SRV'', version = JUndefined,
              url = Some ''https://host/sap/opu/odata/sap/ZSTOCK_SRV/''\<rparr>],
          source = Some ''gateway_catalog'',
          catalogUrl = Some ''../iwfnd/catalogservice/ServiceCollection'', message = None\<rparr>
   \<and> fst (getServices cfg0 probeTwo () staleSession) =
     Inr \<lparr>services =
            [\<lparr>name = JStr ''GWDEMO'', title = JStr ''GWDEMO'', version = JUndefined,
              url = Some ''https://host/sap/opu/odata/sap/GWDEMO/''\<rparr>,
             \<lparr>name = JStr ''API_MATERIAL_SRV'', title = JStr ''API_MATERIAL_SRV'',
              version = JUndefined,
              url = Some ''https://host/sap/opu/odata/sap/API_MATERIAL_SRV/''\<rparr>],
          source = Some ''common_services_test'', catalogUrl = None, message = None\<rparr>
   \<and> fst (getServices cfg0 (always (plain 404 ''Not Found'' JNull)) () staleSession) =
     Inr \<lparr>services = [], source = Some ''none_found'', catalogUrl = None,
          message = Some noneFoundMessage\<rparr>
   \<and> noneFoundMessage \<noteq> []"
proof -
  have c: "connected staleSession"
    by (simp add: staleSession_def)
  have a1: "2 < length catalogPaths"
    "\<forall>w r. rurl r \<in> set (take 2 catalogPaths) \<longrightarrow> \<not> listsServices (fst (catalogTwo w r))"
    "\<forall>w r. rurl r = catalogPaths ! 2 \<longrightarrow>
        (\<exists>resp. fst (catalogTwo w r) = Replied resp \<and> 200 \<le> status resp \<and> status resp < 300
           \<and> member (member (rdata resp) ''d'') ''results'' = JArr [serviceA, serviceB])"
    "toStr (member serviceA ''ID'') = Some ''ZSALES_SRV''"
    "toStr (member serviceB ''ID'') = Some ''ZSTOCK_SRV''"
    "safeNumbers (member serviceA ''ID'')" "safeNumbers (member serviceB ''ID'')"
    by (simp_all add: catalogPaths_def catalogTwo_def listsServices_def plain_def svc_simps
        numeral_2_eq_2)
  have p1: "catalogPaths ! 2 = ''../iwfnd/catalogservice/ServiceCollection''"
    by (simp add: catalogPaths_def)
  note t1 = getServices_source_tag [OF c, where be = catalogTwo and k = 2 and sva = serviceA
      and svb = serviceB and ida = "''ZSALES_SRV''" and idb = "''ZSTOCK_SRV''" and cfg = cfg0
      and w = "()", THEN conjunct2, THEN conjunct1]
  have r1: "fst (getServices cfg0 catalogTwo () staleSession) =
     Inr \<lparr>services =
            [\<lparr>name = JStr ''ZSALES_SRV'', title = JStr ''Sales'', version = JStr ''1'',
              url = Some ''https://host/sap/opu/odata/sap/ZSALES_SRV/''\<rparr>,
             \<lparr>name = JStr ''ZSTOCK_SRV'', title = JStr ''ZSTOCK_SRV'', version = JUndefined,
              url = Some ''https://host/sap/opu/odata/sap/ZSTOCK_SRV/''\<rparr>],
          source = Some ''gateway_catalog'',
          catalogUrl = Some ''../iwfnd/catalogservice/ServiceCollection'', message = None\<rparr>"
    using t1 a1 by (simp add: svc_simps p1 orElse_def cfg0_def)
  have a2: "\<forall>w r. rurl r \<in> set catalogPaths \<longrightarrow> \<not> listsServices (fst (probeTwo w r))"
    "\<forall>w r n. n \<in> set commonServices \<and> rurl r = n @ ''/'' \<longrightarrow>
        resolves (fst (probeTwo w r)) = (n = ''GWDEMO'' \<or> n = ''API_MATERIAL_SRV'')"
    by (auto simp add: catalogPaths_def commonServices_def probeTwo_def resolves_def
        listsServices_def plain_def)
  have f2: "filter (\<lambda>n. n = ''GWDEMO'' \<or> n = ''API_MATERIAL_SRV'') commonServices
              = [''GWDEMO'', ''API_MATERIAL_SRV'']"
    by (simp add: commonServices_def)
  note t2 = getServices_source_tag [OF c, where be = probeTwo and cfg = cfg0 and w = "()"
      and ok = "\<lambda>n. n = ''GWDEMO'' \<or> n = ''API_MATERIAL_SRV''", THEN conjunct2, THEN conjunct2]
  have r2: "fst (getServices cfg0 probeTwo () staleSession) =
     Inr \<lparr>services =
            [\<lparr>name = JStr ''GWDEMO'', title = JStr ''GWDEMO'', version = JUndefined,
              url = Some ''https://host/sap/opu/odata/sap/GWDEMO/''\<rparr>,
             \<lparr>name = JStr ''API_MATERIAL_SRV'', title = JStr ''API_MATERIAL_SRV'',
              version = JUndefined,
              url = Some ''https://host/sap/opu/odata/sap/API_MATERIAL_SRV/''\<rparr>],
          source = Some ''common_services_test'', catalogUrl = None, message = None\<rparr>"
    using t2 a2 by (simp add: f2 commonService_def cfg0_def)
  have a3: "\<forall>w r. rurl r \<in> set catalogPaths \<longrightarrow>
        \<not> listsServices (fst (always (plain 404 ''Not Found'' JNull) w r))"
    "\<forall>w r n. n \<in> set commonServices \<and> rurl r = n @ ''/'' \<longrightarrow>
        resolves (fst (always (plain 404 ''Not Found'' JNull) w r)) = False"
    by (simp_all add: always_def resolves_def listsServices_def plain_def)
  note t3 = getServices_source_tag [OF c, where be = "always (plain 404 ''Not Found'' JNull)" and cfg = cfg0
      and w = "()" and ok = "\<lambda>n. False", THEN conjunct2, THEN conjunct2]
  have r3: "fst (getServices cfg0 (always (plain 404 ''Not Found'' JNull)) () staleSession) =
     Inr \<lparr>services = [], source = Some ''none_found'', catalogUrl = None,
          message = Some noneFoundMessage\<rparr>
     \<and> noneFoundMessage \<noteq> []"
    using t3 a3 by simp
  from r1 r2 r3 show ?thesis by simp
qed

section \<open>HTTP 401\<close>

lemma got401_append [simp]: "got401 (xs @ ys) = (got401 xs \<or> got401 ys)"
  by (auto simp add: got401_def)

lemma got401_Nil [simp]: "\<not> got401 []"
  by (simp add: got401_def)

lemma got401_single [simp]: "got401 [(r, rep)] = (replyStatus rep = Some 401)"
  by (auto simp add: got401_def)

lemma send_connected: "connected (fst (snd (send be w s r))) \<Longrightarrow> connected s"
  by (auto simp add: send_def onError_def split: prod.splits reply.splits if_splits)

lemma send_401:
  assumes "replyStatus (fst (be w (requestInterceptor s r))) = Some 401"
  shows "fst (snd (send be w s r)) = \<lparr>connected = False, csrfToken = None, cookies = []\<rparr>
       \<and> isl (fst (send be w s r))"
  using assms
  by (auto simp add: send_def replyStatus_def onError_def hasStatus_def
      split: prod.splits reply.splits)

lemma send_logged_inv:
  assumes "send (logged be) W s r = (res, s', W')"
    and "got401 (snd W) \<Longrightarrow> \<not> connected s"
    and "got401 (snd W')"
  shows "\<not> connected s'"
proof -
  obtain w log where W: "W = (w, log)" by (cases W)
  obtain res0 s0 w0 where c: "send be w s r = (res0, s0, w0)"
    by (cases "send be w s r")
  from assms(1) have s': "s' = s0"
    and W': "snd W' = log @ [(requestInterceptor s r, fst (be w (requestInterceptor s r)))]"
    by (auto simp add: W send_logged c)
  from assms(3) W' consider "got401 log"
    | "replyStatus (fst (be w (requestInterceptor s r))) = Some 401"
    by auto
  then show ?thesis
  proof cases
    case 1
    with assms(2) W have "\<not> connected s" by simp
    with send_connected [of be w s r] show ?thesis
      by (auto simp add: s' c)
  next
    case 2
    with send_401 [of be w s r] show ?thesis
      by (simp add: s' c)
  qed
qed

lemma catalogLoop_inv:
  assumes "catalogLoop cfg (logged be) ps W s = (r, s', W')"
    and "got401 (snd W) \<Longrightarrow> \<not> connected s"
    and "got401 (snd W')"
  shows "\<not> connected s'"
  using assms
proof (induction ps arbitrary: W s)
  case Nil
  then show ?case by auto
next
  case (Cons p ps)
  let ?req = "httpGet p [(''Accept'', ''application/json'')] None"
  obtain res s1 W1 where c: "send (logged be) W s ?req = (res, s1, W1)"
    by (cases "send (logged be) W s ?req")
  have i: "got401 (snd W1) \<Longrightarrow> \<not> connected s1"
    using c Cons.prems(2) by (rule send_logged_inv)
  from Cons.prems(1) c
  consider "catalogLoop cfg (logged be) ps W1 s1 = (r, s', W')" | "s' = s1 \<and> W' = W1"
    by (auto split: sum.splits if_splits)
  then show ?case
  proof cases
    case 1
    then show ?thesis using i Cons.prems(3) by (rule Cons.IH)
  next
    case 2
    with i Cons.prems(3) show ?thesis by simp
  qed
qed

lemma probeLoop_inv:
  assumes "probeLoop cfg (logged be) ns W s acc = (r, s', W')"
    and "got401 (snd W) \<Longrightarrow> \<not> connected s"
    and "got401 (snd W')"
  shows "\<not> connected s'"
  using assms
proof (induction ns arbitrary: W s acc)
  case Nil
  then show ?case by auto
next
  case (Cons n ns)
  let ?req = "httpGet (n @ ''/'') [(''Accept'', ''application/xml'')] (Some 5000)"
  obtain res s1 W1 where c: "send (logged be) W s ?req = (res, s1, W1)"
    by (cases "send (logged be) W s ?req")
  have i: "got401 (snd W1) \<Longrightarrow> \<not> connected s1"
    using c Cons.prems(2) by (rule send_logged_inv)
  from Cons.prems(1) c
  obtain acc1 where "probeLoop cfg (logged be) ns W1 s1 acc1 = (r, s', W')"
    by (auto split: sum.splits)
  then show ?case using i Cons.prems(3) by (rule Cons.IH)
qed

lemma getServices_inv:
  assumes "got401 (snd (snd (snd (getServices cfg (logged be) (w, []) s))))"
  shows "\<not> connected (fst (snd (getServices cfg (logged be) (w, []) s)))"
proof (cases "connected s")
  case False
  then show ?thesis by (simp add: getServices_def ensureConnected_def)
next
  case True
  obtain r1 s1 W1 where a: "catalogLoop cfg (logged be) catalogPaths (w, []) s = (r1, s1, W1)"
    by (cases "catalogLoop cfg (logged be) catalogPaths (w, []) s")
  have i1: "got401 (snd W1) \<Longrightarrow> \<not> connected s1"
    using a by (rule catalogLoop_inv) simp_all
  show ?thesis
  proof (cases r1)
    case (Some res)
    with assms True a i1 show ?thesis
      by (simp add: getServices_def ensureConnected_def)
  next
    case None
    obtain found s2 W2 where b: "probeLoop cfg (logged be) commonServices W1 s1 [] = (found, s2, W2)"
      by (cases "probeLoop cfg (logged be) commonServices W1 s1 []")
    have "got401 (snd W2) \<Longrightarrow> \<not> connected s2"
      using b i1 by (rule probeLoop_inv)
    with assms True a None b show ?thesis
      by (simp add: getServices_def ensureConnected_def split: if_splits)
  qed
qed

lemma send_logged_first:
  assumes "send (logged be) (w, []) s r = (res, s', W')" and "got401 (snd W')"
  shows "s' = \<lparr>connected = False, csrfToken = None, cookies = []\<rparr>"
proof -
  obtain res0 s0 w0 where c: "send be w s r = (res0, s0, w0)"
    by (cases "send be w s r")
  from assms have "s' = s0" "replyStatus (fst (be w (requestInterceptor s r))) = Some 401"
    by (auto simp add: send_logged c)
  with send_401 [of be w s r] c show ?thesis by simp
qed

lemma single_request_cleared:
  assumes "op \<noteq> Connect" and "op \<noteq> GetServices"
    and "got401 (snd (snd (snd (perform cfg px (logged be) (w, []) s op))))"
  shows "fst (snd (perform cfg px (logged be) (w, []) s op))
           = \<lparr>connected = False, csrfToken = None, cookies = []\<rparr>"
proof (cases "connected s")
  case False
  with assms show ?thesis
    by (cases op)
      (simp_all add: isConnected_def getServiceMetadata_def queryEntitySet_def getEntity_def
        createEntity_def updateEntity_def deleteEntity_def callFunction_def ensureConnected_def)
next
  case True
  show ?thesis
  proof (cases op)
    case IsConnected
    with assms(3) True show ?thesis
      by (auto simp add: isConnected_def split: prod.splits sum.splits if_splits
          dest: send_logged_first)
  next
    case (GetServiceMetadata sn)
    with assms(3) True show ?thesis
      by (auto simp add: getServiceMetadata_def ensureConnected_def
          split: prod.splits sum.splits dest: send_logged_first)
  next
    case (QueryEntitySet sn es opts)
    with assms(3) True show ?thesis
      by (auto simp add: queryEntitySet_def ensureConnected_def
          split: prod.splits sum.splits dest: send_logged_first)
  next
    case (GetEntity sn es kv)
    with assms(3) True show ?thesis
      by (auto simp add: getEntity_def ensureConnected_def
          split: prod.splits sum.splits option.splits dest: send_logged_first)
  next
    case (CreateEntity sn es body)
    with assms(3) True show ?thesis
      by (auto simp add: createEntity_def ensureConnected_def
          split: prod.splits sum.splits dest: send_logged_first)
  next
    case (UpdateEntity sn es kv body)
    with assms(3) True show ?thesis
      by (auto simp add: updateEntity_def ensureConnected_def
          split: prod.splits sum.splits option.splits dest: send_logged_first)
  next
    case (DeleteEntity sn es kv)
    with assms(3) True show ?thesis
      by (auto simp add: deleteEntity_def ensureConnected_def
          split: prod.splits sum.splits option.splits dest: send_logged_first)
  next
    case (CallFunction sn fn ps)
    with assms(3) True show ?thesis
      by (auto simp add: callFunction_def ensureConnected_def
          split: prod.splits sum.splits option.splits dest: send_logged_first)
  qed (use assms in simp_all)
qed

lemma not_connected_fails:
  assumes "\<not> connected s" and "requiresSession op"
  shows "perform cfg px be w s op
           = (Some (Error ''Not connected to SAP OData service. Use sap_connect first.''), s, w)"
  using assms
  by (cases op)
    (simp_all add: getServices_def getServiceMetadata_def queryEntitySet_def getEntity_def
      createEntity_def updateEntity_def deleteEntity_def callFunction_def ensureConnected_def
      thrown_def)

lemma perform_GetServices:
  "snd (perform cfg px be w s GetServices) = snd (getServices cfg be w s)"
  by (simp split: prod.splits)

lemma connect_unauthorizedCatalog:
  "got401 (exchangesOf (connect cfg0 (logged unauthorizedCatalog) ((), []) staleSession))
   \<and> sessionOf (connect cfg0 (logged unauthorizedCatalog) ((), []) staleSession)
       = \<lparr>connected = True, csrfToken = None, cookies = []\<rparr>"
  by (simp add: connect_def cfg0_def fetchCSRFToken_def connectionTest_def logged_def
      staleSession_def httpGet_def send_def requestInterceptor_def unauthorizedCatalog_def
      plain_def onError_def hasStatus_def got401_def exchangesOf_def sessionOf_def
      replyStatus_def)

lemma query_after_connect:
  "map rurl (requestsOf (queryEntitySet (logged unauthorizedCatalog) ((), [])
       \<lparr>connected = True, csrfToken = None, cookies = []\<rparr> ''S'' ''E'' noOptions)) = [''S/E'']"
  by (simp add: queryEntitySet_def ensureConnected_def send_logged requestsOf_def withQuery_def
      queryParams_def noOptions_def searchParamsToString_def httpGet_def
      split: prod.splits sum.splits)

lemma getServices_cookieAfterUnauthorized:
  "got401 (exchangesOf (getServices cfg0 (logged cookieAfterUnauthorized) ((), []) staleSession))
   \<and> sessionOf (getServices cfg0 (logged cookieAfterUnauthorized) ((), []) staleSession)
       = \<lparr>connected = False, csrfToken = Some ''T2'', cookies = [''sid=2'']\<rparr>"
  by (simp add: getServices_def ensureConnected_def staleSession_def catalogPaths_def
      commonServices_def logged_def send_def requestInterceptor_def cookieAfterUnauthorized_def
      plain_def onError_def onResponse_def hasStatus_def httpGet_def hasResults_def
      got401_def exchangesOf_def sessionOf_def replyStatus_def)

text \<open>
  C3 (as the code has it). Every response with HTTP 401 makes the interceptor clear
  the whole session at that moment (the last part below). On a connected client, for
  every operation other than \<open>connect\<close>: if a request of the operation received a
  401, then after the operation the client is not connected; after every operation
  but \<open>getServices\<close> (they issue one request) the session is fully cleared, whereas
  in \<open>getServices\<close> a later probe of the same call may store a token or cookies
  again; and every operation that requires a session (\<open>getServices\<close>,
  \<open>getServiceMetadata\<close>, the query, the four entity operations, \<open>callFunction\<close>),
  called next, throws the not-connected error and leaves the session and the service
  untouched: it issues no request.
\<close>

theorem unauthorized_clears_session:
  fixes be :: "'w backend"
  assumes "connected s" and "op \<noteq> Connect"
    and "got401 (exchangesOf (perform cfg parseXML (logged be) (w, []) s op))"
  shows "\<not> connected (sessionOf (perform cfg parseXML (logged be) (w, []) s op))
       \<and> (op \<noteq> GetServices \<longrightarrow>
            sessionOf (perform cfg parseXML (logged be) (w, []) s op)
              = \<lparr>connected = False, csrfToken = None, cookies = []\<rparr>)
       \<and> (requiresSession following \<longrightarrow>
            perform cfg parseXML (logged be)
                (worldOf (perform cfg parseXML (logged be) (w, []) s op))
                (sessionOf (perform cfg parseXML (logged be) (w, []) s op)) following
              = (Some (Error ''Not connected to SAP OData service. Use sap_connect first.''),
                 sessionOf (perform cfg parseXML (logged be) (w, []) s op),
                 worldOf (perform cfg parseXML (logged be) (w, []) s op)))
       \<and> (replyStatus (fst (be v (requestInterceptor t r))) = Some 401 \<longrightarrow>
            sessionOf (send be v t r) = \<lparr>connected = False, csrfToken = None, cookies = []\<rparr>)"
proof -
  let ?R = "perform cfg parseXML (logged be) (w, []) s op"
  have g: "got401 (snd (snd (snd ?R)))"
    using assms(3) by (simp add: exchangesOf_def)
  have single: "sessionOf ?R = \<lparr>connected = False, csrfToken = None, cookies = []\<rparr>"
    if "op \<noteq> GetServices"
    using single_request_cleared [OF assms(2) that g] by (simp add: sessionOf_def)
  have nc: "\<not> connected (sessionOf ?R)"
  proof (cases "op = GetServices")
    case True
    with g have "got401 (snd (snd (snd (getServices cfg (logged be) (w, []) s))))"
      by (simp add: perform_GetServices del: perform.simps)
    then have "\<not> connected (fst (snd (getServices cfg (logged be) (w, []) s)))"
      by (rule getServices_inv)
    then show ?thesis
      by (simp add: sessionOf_def True perform_GetServices del: perform.simps)
  next
    case False
    with single show ?thesis by simp
  qed
  have nxt: "perform cfg parseXML (logged be) (worldOf ?R) (sessionOf ?R) following
              = (Some (Error ''Not connected to SAP OData service. Use sap_connect first.''),
                 sessionOf ?R, worldOf ?R)"
    if "requiresSession following"
    using nc that by (rule not_connected_fails)
  have ic: "sessionOf (send be v t r) = \<lparr>connected = False, csrfToken = None, cookies = []\<rparr>"
    if "replyStatus (fst (be v (requestInterceptor t r))) = Some 401"
    using send_401 [of be v t r] that by (simp add: sessionOf_def)
  from nc single nxt ic show ?thesis by blast
qed

theorem unauthorized_clears_session_witness:
  "sessionOf (perform cfg0 (\<lambda>d. Inr d) (logged (always (plain 401 ''Unauthorized'' JNull)))
       ((), []) staleSession (QueryEntitySet ''S'' ''E'' noOptions))
     = \<lparr>connected = False, csrfToken = None, cookies = []\<rparr>
   \<and> perform cfg0 (\<lambda>d. Inr d) (logged (always (plain 401 ''Unauthorized'' JNull)))
       (worldOf (perform cfg0 (\<lambda>d. Inr d) (logged (always (plain 401 ''Unauthorized'' JNull)))
          ((), []) staleSession (QueryEntitySet ''S'' ''E'' noOptions)))
       (sessionOf (perform cfg0 (\<lambda>d. Inr d) (logged (always (plain 401 ''Unauthorized'' JNull)))
          ((), []) staleSession (QueryEntitySet ''S'' ''E'' noOptions)))
       (GetEntity ''S'' ''E'' [(''ID'', JStr ''42'')])
     = (Some (Error ''Not connected to SAP OData service. Use sap_connect first.''),
        sessionOf (perform cfg0 (\<lambda>d. Inr d) (logged (always (plain 401 ''Unauthorized'' JNull)))
          ((), []) staleSession (QueryEntitySet ''S'' ''E'' noOptions)),
        worldOf (perform cfg0 (\<lambda>d. Inr d) (logged (always (plain 401 ''Unauthorized'' JNull)))
          ((), []) staleSession (QueryEntitySet ''S'' ''E'' noOptions)))
   \<and> \<not> connected (sessionOf (perform cfg0 (\<lambda>d. Inr d) (logged cookieAfterUnauthorized)
       ((), []) staleSession GetServices))"
proof -
  have c: "connected staleSession"
    by (simp add: staleSession_def)
  have g1: "got401 (exchangesOf (perform cfg0 (\<lambda>d. Inr d)
       (logged (always (plain 401 ''Unauthorized'' JNull))) ((), []) staleSession
       (QueryEntitySet ''S'' ''E'' noOptions)))"
    by (auto simp add: queryEntitySet_def ensureConnected_def staleSession_def send_logged
        exchangesOf_def always_def plain_def replyStatus_def split: prod.splits sum.splits)
  have g2: "got401 (exchangesOf (perform cfg0 (\<lambda>d. Inr d) (logged cookieAfterUnauthorized)
       ((), []) staleSession GetServices))"
    using getServices_cookieAfterUnauthorized
    by (simp add: exchangesOf_def perform_GetServices del: perform.simps)
  note t1 = unauthorized_clears_session
    [where be = "always (plain 401 ''Unauthorized'' JNull)" and s = staleSession and w = "()"
       and op = "QueryEntitySet ''S'' ''E'' noOptions" and cfg = cfg0
       and parseXML = "\<lambda>d. Inr d" and following = "GetEntity ''S'' ''E'' [(''ID'', JStr ''42'')]"
       and v = "()" and t = staleSession and r = "httpGet [] [] None",
     OF c _ g1]
  note t2 = unauthorized_clears_session
    [where be = cookieAfterUnauthorized and s = staleSession and w = "()"
       and op = GetServices and cfg = cfg0 and parseXML = "\<lambda>d. Inr d"
       and following = GetServices and v = "()" and t = staleSession and r = "httpGet [] [] None",
     OF c _ g2]
  from t1 have "sessionOf (perform cfg0 (\<lambda>d. Inr d) (logged (always (plain 401 ''Unauthorized'' JNull)))
       ((), []) staleSession (QueryEntitySet ''S'' ''E'' noOptions))
     = \<lparr>connected = False, csrfToken = None, cookies = []\<rparr>"
    by simp
  moreover from t1 [THEN conjunct2, THEN conjunct2, THEN conjunct1] have "perform cfg0 (\<lambda>d. Inr d) (logged (always (plain 401 ''Unauthorized'' JNull)))
       (worldOf (perform cfg0 (\<lambda>d. Inr d) (logged (always (plain 401 ''Unauthorized'' JNull)))
          ((), []) staleSession (QueryEntitySet ''S'' ''E'' noOptions)))
       (sessionOf (perform cfg0 (\<lambda>d. Inr d) (logged (always (plain 401 ''Unauthorized'' JNull)))
          ((), []) staleSession (QueryEntitySet ''S'' ''E'' noOptions)))
       (GetEntity ''S'' ''E'' [(''ID'', JStr ''42'')])
     = (Some (Error ''Not connected to SAP OData service. Use sap_connect first.''),
        sessionOf (perform cfg0 (\<lambda>d. Inr d) (logged (always (plain 401 ''Unauthorized'' JNull)))
          ((), []) staleSession (QueryEntitySet ''S'' ''E'' noOptions)),
        worldOf (perform cfg0 (\<lambda>d. Inr d) (logged (always (plain 401 ''Unauthorized'' JNull)))
          ((), []) staleSession (QueryEntitySet ''S'' ''E'' noOptions)))"
    by (simp del: perform.simps)
  moreover from t2 [THEN conjunct1] have "\<not> connected (sessionOf (perform cfg0 (\<lambda>d. Inr d)
       (logged cookieAfterUnauthorized) ((), []) staleSession GetServices))"
    by (simp del: perform.simps)
  ultimately show ?thesis by blast
qed

text \<open>
  C3 as the specification words it fails twice. \<open>connect\<close> called on a connected client
  whose catalog request receives a 401 and whose base path answers 404 ends connected,
  and the query that follows issues its request. And \<open>getServices\<close> whose first catalog
  request receives a 401 and whose later requests succeed with a token and a cookie
  ends with that token and cookie stored.
\<close>

theorem unauthorized_not_always_cleared_counterexample:
  "got401 (exchangesOf (connect cfg0 (logged unauthorizedCatalog) ((), []) staleSession))
   \<and> sessionOf (connect cfg0 (logged unauthorizedCatalog) ((), []) staleSession)
       = \<lparr>connected = True, csrfToken = None, cookies = []\<rparr>
   \<and> map rurl (requestsOf (queryEntitySet (logged unauthorizedCatalog) ((), [])
       \<lparr>connected = True, csrfToken = None, cookies = []\<rparr> ''S'' ''E'' noOptions)) = [''S/E'']
   \<and> got401 (exchangesOf (getServices cfg0 (logged cookieAfterUnauthorized) ((), []) staleSession))
   \<and> sessionOf (getServices cfg0 (logged cookieAfterUnauthorized) ((), []) staleSession)
       = \<lparr>connected = False, csrfToken = Some ''T2'', cookies = [''sid=2'']\<rparr>"
  using connect_unauthorizedCatalog query_after_connect getServices_cookieAfterUnauthorized
  by blast

end
